theory Spec2Isabelle
  imports Main
begin

section \<open>Data model of \<open>contract-deploy.ts\<close>\<close>

text \<open>
  Field elements and addresses are only compared (\<open>equals\<close>, \<open>isZero\<close>) by the
  deployment code, so a natural number stands for each. \<open>a.equals(b)\<close> is HOL equality.
\<close>

datatype fr = Fr nat

datatype aztec_address = AztecAddress nat

datatype public_keys = PublicKeys nat

definition ZERO :: aztec_address where
  "ZERO = AztecAddress 0"

definition isZero :: "aztec_address \<Rightarrow> bool" where
  "isZero a = (a = ZERO)"

text \<open>Values passed as call arguments (\<open>unknown[]\<close> in the source).\<close>

datatype abi_value =
    VField fr
  | VBool bool
  | VKeys public_keys
  | VAddress aztec_address
  | VInt int

text \<open>
  Every \<open>throw new Error(...)\<close> of the source is one constructor, carrying the values its
  message prints. \<open>EncodingError\<close> is the failure of the packing primitive
  \<open>bufferAsFields\<close>, and \<open>NodeError\<close> a rejection that comes from the node, the
  transport or a caller's callback; the source catches neither.
\<close>

datatype error =
    ContractClassMismatch fr fr
  | NothingToDeploy string
  | DeployerMismatch aztec_address aztec_address
  | NotRegistered aztec_address
  | ArtifactNotFound aztec_address
  | EncodingError
  | NodeError string

record function_artifact =
  fn_name :: string

record contract_artifact =
  art_name :: string
  art_functions :: "function_artifact list"

record contract_class =
  cc_id :: fr
  artifactHash :: fr
  privateFunctionsRoot :: fr
  publicBytecodeCommitment :: fr
  packedBytecode :: "nat list"

record contract_instance =
  address :: aztec_address
  contractClassId :: fr
  deployer :: aztec_address
  salt :: fr
  publicKeys :: public_keys
  initializationHash :: fr

text \<open>The object literal handed to \<open>getContractInstanceFromDeployParams\<close>.\<close>

record deploy_params =
  dp_constructorArgs :: "abi_value list"
  dp_salt :: "fr option"
  dp_publicKeys :: public_keys
  dp_constructorArtifact :: "function_artifact option"
  dp_deployer :: aztec_address

text \<open>A canonical protocol contract, as the two \<open>getCanonical...\<close> builders return it.\<close>

record protocol_contract =
  pc_contractClass :: contract_class
  pc_artifact :: contract_artifact

text \<open>
  The node capability (\<open>MinimalAztecNode\<close>): both queries answer \<open>null\<close> or a value.
\<close>

record aztec_node =
  getContractClass :: "fr \<Rightarrow> contract_class option"
  getContract :: "aztec_address \<Rightarrow> contract_instance option"

record account =
  getAddress :: aztec_address
  aztecNode :: aztec_node

text \<open>
  The imported primitives of \<open>@aztec/circuits.js\<close>, \<open>@aztec/foundation\<close> and
  \<open>@aztec/protocol-contracts\<close>. They are opaque deterministic functions and constants
  for the deployment code, so they are parameters of the model.
\<close>

record library =
  getContractInstanceFromDeployParams :: "contract_artifact \<Rightarrow> deploy_params \<Rightarrow> contract_instance"
  getContractClassFromArtifact :: "contract_artifact \<Rightarrow> contract_class"
  bufferAsFields :: "nat list \<Rightarrow> nat \<Rightarrow> error + fr list"
  MAX_PACKED_PUBLIC_BYTECODE_SIZE_IN_FIELDS :: nat
  getCanonicalClassRegisterer :: protocol_contract
  getCanonicalInstanceDeployer :: protocol_contract
  ContractClassRegisterer :: aztec_address
  ContractInstanceDeployer :: aztec_address

record deploy_options =
  contractAddressSalt :: "fr option"
  universalDeploy :: bool
  skipClassRegistration :: bool
  skipPublicDeployment :: bool
  skipInitialization :: bool

text \<open>\<open>ContractInfo\<close> of \<open>contract.ts\<close>: \<open>{ address, instance, artifact }\<close>.\<close>

record contract_info =
  ci_address :: aztec_address
  ci_instance :: contract_instance
  ci_artifact :: contract_artifact

text \<open>\<open>new UnsafeContract(contractInstance, artifact, account)\<close>.\<close>

record unsafe_contract =
  uc_instance :: contract_instance
  uc_artifact :: contract_artifact
  uc_account :: account

text \<open>
  Modelled from the spec: \<open>ContractFunctionInteraction\<close> and its \<open>request()\<close> live in
  \<open>contract.ts\<close>, which is not among the sources. The spec describes a call as an opaque
  invocation descriptor (target address, selector, arguments) ready for inclusion in a
  transaction; an interaction is that descriptor together with the sending account, and
  \<open>request\<close> yields the descriptor.
\<close>

record function_call =
  call_to :: aztec_address
  call_name :: string
  call_args :: "abi_value list"

record contract_function_interaction =
  fi_target :: aztec_address
  fi_account :: account
  fi_function :: string
  fi_args :: "abi_value list"

definition request :: "contract_function_interaction \<Rightarrow> function_call" where
  "request i = \<lparr>call_to = fi_target i, call_name = fi_function i, call_args = fi_args i\<rparr>"

text \<open>
  Modelled from the spec: \<open>contract.methods.f!(args)\<close> of \<open>UnsafeContract\<close>
  (\<open>contract.ts\<close>, not among the sources) builds the interaction that calls \<open>f\<close> on the
  instance the handle is bound to.
\<close>

definition methods :: "unsafe_contract \<Rightarrow> string \<Rightarrow> abi_value list \<Rightarrow> contract_function_interaction" where
  "methods c f xs =
     \<lparr>fi_target = address (uc_instance c), fi_account = uc_account c,
      fi_function = f, fi_args = xs\<rparr>"

type_synonym capsule = "fr list"

record transaction_request =
  calls :: "function_call list"
  capsules :: "capsule list"
  registerContracts :: "contract_info list"

text \<open>The \<open>{ calls, capsules }\<close> object each sub-plan returns.\<close>

record call_plan =
  plan_calls :: "function_call list"
  plan_capsules :: "capsule list"

text \<open>
  The constructor parameters of \<open>DeployMethod\<close> that the planning reads.
  \<open>dm_constructorArtifact\<close> is the field \<open>#constructorArtifact\<close>, the result of
  \<open>getInitializer(artifact, constructorNameOrArtifact)\<close> computed in the constructor.
\<close>

record deploy_method =
  dm_publicKeys :: public_keys
  dm_account :: account
  dm_artifact :: contract_artifact
  dm_args :: "abi_value list"
  dm_options :: deploy_options
  dm_constructorArtifact :: "function_artifact option"

section \<open>Protocol contract resolver\<close>

text \<open>
  \<open>Promise.all\<close> of the two canonical builders gives the list in the order written;
  \<open>Array.find\<close> returns the first element that satisfies the predicate.
\<close>

definition fetchProtocolContractArtifact :: "library \<Rightarrow> fr \<Rightarrow> contract_artifact option" where
  "fetchProtocolContractArtifact L classId =
     (let contracts = [getCanonicalClassRegisterer L, getCanonicalInstanceDeployer L]
      in map_option pc_artifact (find (\<lambda>c. cc_id (pc_contractClass c) = classId) contracts))"

definition getProtocolContract :: "library \<Rightarrow> aztec_address \<Rightarrow> account \<Rightarrow> error + unsafe_contract" where
  "getProtocolContract L addr acct =
     (case getContract (aztecNode acct) addr of
        None \<Rightarrow> Inl (NotRegistered addr)
      | Some contractInstance \<Rightarrow>
          (case fetchProtocolContractArtifact L (contractClassId contractInstance) of
             None \<Rightarrow> Inl (ArtifactNotFound addr)
           | Some artifact \<Rightarrow>
               Inr \<lparr>uc_instance = contractInstance, uc_artifact = artifact, uc_account = acct\<rparr>))"

definition getRegistererContract :: "library \<Rightarrow> account \<Rightarrow> error + unsafe_contract" where
  "getRegistererContract L acct = getProtocolContract L (ContractClassRegisterer L) acct"

definition getDeployerContract :: "library \<Rightarrow> account \<Rightarrow> error + unsafe_contract" where
  "getDeployerContract L acct = getProtocolContract L (ContractInstanceDeployer L) acct"

section \<open>Deployment descriptor\<close>

text \<open>
  The body of the \<open>#contract\<close> thunk. The thunk is memoised, so every use of the
  descriptor in one \<open>DeployMethod\<close> sees this one value.
\<close>

definition deployParams :: "deploy_method \<Rightarrow> deploy_params" where
  "deployParams d =
     \<lparr>dp_constructorArgs = dm_args d,
      dp_salt = contractAddressSalt (dm_options d),
      dp_publicKeys = dm_publicKeys d,
      dp_constructorArtifact = dm_constructorArtifact d,
      dp_deployer = (if universalDeploy (dm_options d) then ZERO else getAddress (dm_account d))\<rparr>"

definition contract :: "library \<Rightarrow> deploy_method \<Rightarrow> error + contract_info" where
  "contract L d =
     (let instance = getContractInstanceFromDeployParams L (dm_artifact d) (deployParams d);
          contractClass = getContractClassFromArtifact L (dm_artifact d)
      in if contractClassId instance \<noteq> cc_id contractClass
         then Inl (ContractClassMismatch (contractClassId instance) (cc_id contractClass))
         else Inr \<lparr>ci_address = address instance, ci_instance = instance,
                   ci_artifact = dm_artifact d\<rparr>)"

section \<open>Call planner\<close>

text \<open>The \<open>{ call, capsule }\<close> object of \<open>registerContractClass\<close>.\<close>

record registering =
  reg_call :: function_call
  reg_capsule :: capsule

definition registerContractClass :: "library \<Rightarrow> account \<Rightarrow> contract_artifact \<Rightarrow> error + registering" where
  "registerContractClass L acct artifact =
     (let emitPublicBytecode = True;
          cls = getContractClassFromArtifact L artifact
      in case bufferAsFields L (packedBytecode cls) (MAX_PACKED_PUBLIC_BYTECODE_SIZE_IN_FIELDS L) of
           Inl e \<Rightarrow> Inl e
         | Inr encodedBytecode \<Rightarrow>
             (case getRegistererContract L acct of
                Inl e \<Rightarrow> Inl e
              | Inr registerer \<Rightarrow>
                  Inr \<lparr>reg_call =
                         request (methods registerer ''register''
                           [VField (artifactHash cls), VField (privateFunctionsRoot cls),
                            VField (publicBytecodeCommitment cls), VBool emitPublicBytecode]),
                       reg_capsule = encodedBytecode\<rparr>))"

definition deployInstance :: "library \<Rightarrow> account \<Rightarrow> contract_instance \<Rightarrow> error + contract_function_interaction" where
  "deployInstance L acct instance =
     (case getDeployerContract L acct of
        Inl e \<Rightarrow> Inl e
      | Inr deployerContract \<Rightarrow>
          (let isUniversalDeploy = isZero (deployer instance)
           in if \<not> isUniversalDeploy \<and> getAddress acct \<noteq> deployer instance
              then Inl (DeployerMismatch (deployer instance) (getAddress acct))
              else Inr (methods deployerContract ''deploy''
                     [VField (salt instance), VField (contractClassId instance),
                      VField (initializationHash instance), VKeys (publicKeys instance),
                      VBool isUniversalDeploy])))"

text \<open>
  \<open>#getDeploymentFunctionCalls\<close>: the inner \<open>case\<close> is the state of the arrays
  \<open>calls\<close> and \<open>capsules\<close> after the class registration block, the rest is the
  deployment block pushing onto \<open>calls\<close>.
\<close>

definition getDeploymentFunctionCalls :: "library \<Rightarrow> deploy_method \<Rightarrow> error + call_plan" where
  "getDeploymentFunctionCalls L d =
     (case contract L d of
        Inl e \<Rightarrow> Inl e
      | Inr c \<Rightarrow>
          (case
             (if \<not> skipClassRegistration (dm_options d) then
                (let alreadyRegistered =
                       (getContractClass (aztecNode (dm_account d))
                          (contractClassId (ci_instance c)) \<noteq> None)
                 in if \<not> alreadyRegistered then
                      (case registerContractClass L (dm_account d) (ci_artifact c) of
                         Inl e \<Rightarrow> Inl e
                       | Inr registering \<Rightarrow>
                           Inr \<lparr>plan_calls = [reg_call registering],
                                plan_capsules = [reg_capsule registering]\<rparr>)
                    else Inr \<lparr>plan_calls = [], plan_capsules = []\<rparr>)
              else Inr \<lparr>plan_calls = [], plan_capsules = []\<rparr>)
           of
             Inl e \<Rightarrow> Inl e
           | Inr p \<Rightarrow>
               (if \<not> skipPublicDeployment (dm_options d) then
                  (case deployInstance L (dm_account d) (ci_instance c) of
                     Inl e \<Rightarrow> Inl e
                   | Inr deploymentInteraction \<Rightarrow>
                       Inr (p\<lparr>plan_calls := plan_calls p @ [request deploymentInteraction]\<rparr>))
                else Inr p)))"

definition getInitializeFunctionCalls :: "library \<Rightarrow> deploy_method \<Rightarrow> error + call_plan" where
  "getInitializeFunctionCalls L d =
     (case contract L d of
        Inl e \<Rightarrow> Inl e
      | Inr c \<Rightarrow>
          (case dm_constructorArtifact d of
             Some ctor \<Rightarrow>
               (if \<not> skipInitialization (dm_options d) then
                  Inr \<lparr>plan_calls =
                         [request \<lparr>fi_target = ci_address c, fi_account = dm_account d,
                                   fi_function = fn_name ctor, fi_args = dm_args d\<rparr>],
                       plan_capsules = []\<rparr>
                else Inr \<lparr>plan_calls = [], plan_capsules = []\<rparr>)
           | None \<Rightarrow> Inr \<lparr>plan_calls = [], plan_capsules = []\<rparr>))"

section \<open>Transaction request assembler\<close>

definition txRequest :: "library \<Rightarrow> deploy_method \<Rightarrow> error + transaction_request" where
  "txRequest L d =
     (case getDeploymentFunctionCalls L d of
        Inl e \<Rightarrow> Inl e
      | Inr deployment \<Rightarrow>
          (case getInitializeFunctionCalls L d of
             Inl e \<Rightarrow> Inl e
           | Inr bootstrap \<Rightarrow>
               (if length (plan_calls deployment) + length (plan_calls bootstrap) = 0
                then Inl (NothingToDeploy (art_name (dm_artifact d)))
                else
                  (case contract L d of
                     Inl e \<Rightarrow> Inl e
                   | Inr c \<Rightarrow>
                       Inr \<lparr>calls = plan_calls deployment @ plan_calls bootstrap,
                            capsules = plan_capsules deployment @ plan_capsules bootstrap,
                            registerContracts = [c]\<rparr>))))"

section \<open>Wallet connection: the raw RPC request\<close>

text \<open>
  \<open>ReownWalletSdk.request\<close>. A rejected promise and a thrown error are both an \<open>Inl\<close>.
  The controller is the only mutable object of the method; the callback receives it and
  may abort it or throw, so the callback is a function from the controller to what it
  throws (if anything) and the controller it leaves.
\<close>

datatype sdk_error =
    AssertionError string
  | Rejected string
  | Thrown string

record abort_controller =
  aborted :: bool

record rpc_request =
  rq_method :: string
  rq_params :: "string list"

record session =
  topic :: string

text \<open>
  The loaded \<open>WalletConnectModalSign\<close>: what \<open>getSession()\<close> resolves to, and what
  \<open>request({ chainId, topic, request })\<close> resolves to.
\<close>

record web3modal =
  wm_getSession :: "sdk_error + session option"
  wm_request :: "string \<Rightarrow> string \<Rightarrow> rpc_request \<Rightarrow> sdk_error + string"

text \<open>
  The fields of the SDK object the method reads: the outcome of the memoised
  \<open>#getWeb3Modal\<close>, the callback \<open>#onRequest\<close>, and the two values imported from
  \<open>utils.js\<close> (the list \<open>METHODS_NOT_REQUIRING_CONFIRMATION\<close> and \<open>CAIP.chain()\<close>).
\<close>

record reown_wallet_sdk =
  getWeb3Modal :: "sdk_error + web3modal"
  onRequest :: "rpc_request \<Rightarrow> abort_controller \<Rightarrow> sdk_error option \<times> abort_controller"
  METHODS_NOT_REQUIRING_CONFIRMATION :: "string list"
  CAIP_chain :: string

definition getSession :: "reown_wallet_sdk \<Rightarrow> sdk_error + session option" where
  "getSession S =
     (case getWeb3Modal S of
        Inl e \<Rightarrow> Inl e
      | Inr web3modal \<Rightarrow> wm_getSession web3modal)"

text \<open>The body of the \<open>try\<close> block.\<close>

definition requestBody :: "reown_wallet_sdk \<Rightarrow> rpc_request \<Rightarrow> sdk_error + string" where
  "requestBody S req =
     (case getSession S of
        Inl e \<Rightarrow> Inl e
      | Inr None \<Rightarrow> Inl (AssertionError ''no session'')
      | Inr (Some session) \<Rightarrow>
          (case getWeb3Modal S of
             Inl e \<Rightarrow> Inl e
           | Inr web3modal \<Rightarrow> wm_request web3modal (CAIP_chain S) (topic session) req))"

text \<open>
  The method returns its outcome and the final state of the controller it created. The
  callback is called before the \<open>try\<close> block is entered; \<open>finally\<close> aborts the controller
  on every way out of the block.
\<close>

definition requestRpc :: "reown_wallet_sdk \<Rightarrow> rpc_request \<Rightarrow> (sdk_error + string) \<times> abort_controller" where
  "requestRpc S req =
     (let abortController = \<lparr>aborted = False\<rparr>;
          called =
            (if rq_method req \<notin> set (METHODS_NOT_REQUIRING_CONFIRMATION S)
             then onRequest S req abortController
             else (None, abortController))
      in case called of
           (Some e, ac) \<Rightarrow> (Inl e, ac)
         | (None, ac) \<Rightarrow> (requestBody S req, ac\<lparr>aborted := True\<rparr>))"

section \<open>Deployment lifecycle\<close>

text \<open>
  Modelled from the spec: \<open>lazyValue\<close> is imported from \<open>utils.js\<close>, which is not among the
  sources. The specification describes it as a cell that is \<open>NotStarted\<close>, \<open>InFlight\<close> or
  \<open>Done\<close>: the first access starts the wrapped computation, accesses made before it
  completes await that same execution, and the outcome is kept once it completes.
  \<open>invoke\<close> is a call of the thunk and \<open>settle\<close> the completion of the computation;
  \<open>cell_runs\<close> counts how often the wrapped computation was started.
\<close>

datatype 'a lazy_state = NotStarted | InFlight | Done 'a

record 'a lazy_cell =
  cell_state :: "'a lazy_state"
  cell_runs :: nat

definition lazyValue :: "'a lazy_cell" where
  "lazyValue = \<lparr>cell_state = NotStarted, cell_runs = 0\<rparr>"

definition notStarted :: "'a lazy_cell \<Rightarrow> bool" where
  "notStarted c = (case cell_state c of NotStarted \<Rightarrow> True | _ \<Rightarrow> False)"

definition inFlight :: "'a lazy_cell \<Rightarrow> bool" where
  "inFlight c = (case cell_state c of InFlight \<Rightarrow> True | _ \<Rightarrow> False)"

definition invoke :: "'a lazy_cell \<Rightarrow> 'a lazy_cell" where
  "invoke c =
     (case cell_state c of
        NotStarted \<Rightarrow> c\<lparr>cell_state := InFlight, cell_runs := Suc (cell_runs c)\<rparr>
      | _ \<Rightarrow> c)"

definition settle :: "'a \<Rightarrow> 'a lazy_cell \<Rightarrow> 'a lazy_cell" where
  "settle v c =
     (case cell_state c of
        InFlight \<Rightarrow> c\<lparr>cell_state := Done v\<rparr>
      | _ \<Rightarrow> c)"

text \<open>
  The contract object the caller's \<open>postDeployCtor\<close> builds, the receipt the base class
  \<open>SentTx\<close> resolves to, and \<open>{ ...receipt, contract }\<close>.
\<close>

record deployed_contract =
  dc_address :: aztec_address
  dc_account :: account

record wait_opts =
  wo_timeout :: nat

record tx_receipt =
  rc_txHash :: nat
  rc_status :: string

record deploy_receipt = tx_receipt +
  rc_contract :: deployed_contract

text \<open>
  A \<open>DeploySentTx\<close>: its \<open>contract\<close> thunk, created by \<open>send\<close>, and two counters of what
  the handle has called so far (\<open>super.wait\<close> and \<open>postDeployCtor\<close>).
\<close>

record deploy_sent_tx =
  tx_contract :: "(error + deployed_contract) lazy_cell"
  tx_receiptWaits :: nat
  tx_ctorCalls :: nat

text \<open>
  A \<open>DeployMethod\<close> object: the thunks \<open>#contract\<close> and \<open>#txRequest\<close> created by the
  constructor, the handles \<open>send\<close> has returned, in order, and counters of the calls of
  \<open>#getDeploymentFunctionCalls\<close>, \<open>#getInitializeFunctionCalls\<close> and
  \<open>account.sendTransaction\<close>.
\<close>

record deploy_state =
  st_contract :: "(error + contract_info) lazy_cell"
  st_txRequest :: "(error + transaction_request) lazy_cell"
  st_deploymentPlans :: nat
  st_initializePlans :: nat
  st_submissions :: nat
  st_handles :: "deploy_sent_tx list"

text \<open>
  What the object is constructed with. \<open>superWait n options\<close> is what the \<open>n\<close>-th call
  of \<open>super.wait(options)\<close> on a handle resolves to (the base class is an import).
\<close>

record deploy_env =
  env_library :: library
  env_method :: deploy_method
  postDeployCtor :: "aztec_address \<Rightarrow> account \<Rightarrow> error + deployed_contract"
  superWait :: "nat \<Rightarrow> wait_opts option \<Rightarrow> error + tx_receipt"

text \<open>The constructor starts nothing.\<close>

definition newDeployMethod :: deploy_state where
  "newDeployMethod =
     \<lparr>st_contract = lazyValue, st_txRequest = lazyValue, st_deploymentPlans = 0,
      st_initializePlans = 0, st_submissions = 0, st_handles = []\<rparr>"

text \<open>
  The asynchronous code runs as a sequence of events, in any order: calls made by the
  caller (\<open>send\<close>, \<open>wait\<close>) and completions of computations that are in flight. An
  \<open>async\<close> body runs up to its first \<open>await\<close> when it is called, so a body that starts
  calls \<open>this.#contract()\<close> in the same event.
\<close>

datatype event =
    Send
  | WaitCalled nat
  | WaitResumed nat nat "wait_opts option"
  | ContractSettles
  | TxRequestSettles
  | ResolutionSettles nat

text \<open>\<open>this.#contract()\<close>.\<close>

definition callContract :: "deploy_state \<Rightarrow> deploy_state" where
  "callContract s = s\<lparr>st_contract := invoke (st_contract s)\<rparr>"

text \<open>
  \<open>this.#txRequest()\<close>: the body, when it starts, calls \<open>#getDeploymentFunctionCalls\<close>,
  which calls \<open>this.#contract()\<close> and awaits it.
\<close>

definition callTxRequest :: "deploy_state \<Rightarrow> deploy_state" where
  "callTxRequest s =
     (if notStarted (st_txRequest s)
      then callContract
             (s\<lparr>st_txRequest := invoke (st_txRequest s),
                st_deploymentPlans := Suc (st_deploymentPlans s)\<rparr>)
      else s)"

text \<open>
  \<open>send()\<close>: \<open>this.account.sendTransaction(this.#txRequest())\<close>, then a new handle with
  a new \<open>lazyValue\<close>.
\<close>

definition send :: "deploy_state \<Rightarrow> deploy_state" where
  "send s =
     (let s1 = callTxRequest s
      in s1\<lparr>st_submissions := Suc (st_submissions s1),
            st_handles := st_handles s1 @
              [\<lparr>tx_contract = lazyValue, tx_receiptWaits = 0, tx_ctorCalls = 0\<rparr>]\<rparr>)"

text \<open>
  \<open>this.contract()\<close> of handle \<open>k\<close>: the body, when it starts, calls \<open>this.#contract()\<close>
  and awaits it.
\<close>

definition callResolution :: "nat \<Rightarrow> deploy_state \<Rightarrow> deploy_state" where
  "callResolution k s =
     (let h = st_handles s ! k
      in if notStarted (tx_contract h)
         then callContract (s\<lparr>st_handles := (st_handles s)[k := h\<lparr>tx_contract := invoke (tx_contract h)\<rparr>]\<rparr>)
         else s)"

text \<open>
  The body of the thunk \<open>send\<close> hands to the handle: the descriptor, then
  \<open>postDeployCtor(contract.address, this.account)\<close>.
\<close>

definition resolveContract :: "deploy_env \<Rightarrow> error + deployed_contract" where
  "resolveContract E =
     (case contract (env_library E) (env_method E) of
        Inl e \<Rightarrow> Inl e
      | Inr c \<Rightarrow> postDeployCtor E (ci_address c) (dm_account (env_method E)))"

text \<open>
  One event. \<open>WaitCalled k\<close> is the call of \<open>wait\<close> on handle \<open>k\<close>, up to
  \<open>await super.wait(options)\<close>; \<open>WaitResumed k n options\<close> is its continuation when that
  \<open>n\<close>-th base wait has resolved to a receipt (a rejected base wait ends \<open>wait\<close>). The
  request body completes after the descriptor, having called
  \<open>#getInitializeFunctionCalls\<close> when the deployment sub-plan returned; its later calls
  of \<open>this.#contract()\<close> find the descriptor done. The resolution body completes after
  the descriptor with the value of \<open>resolveContract\<close>, having called \<open>postDeployCtor\<close>
  when the descriptor was built.
\<close>

fun step :: "deploy_env \<Rightarrow> event \<Rightarrow> deploy_state \<Rightarrow> deploy_state" where
  "step E Send s = send s"
| "step E (WaitCalled k) s =
     (if k < length (st_handles s)
      then s\<lparr>st_handles := (st_handles s)[k := (st_handles s ! k)
              \<lparr>tx_receiptWaits := Suc (tx_receiptWaits (st_handles s ! k))\<rparr>]\<rparr>
      else s)"
| "step E (WaitResumed k n options) s =
     (if k < length (st_handles s) \<and> \<not> isl (superWait E n options)
      then callResolution k s
      else s)"
| "step E ContractSettles s =
     s\<lparr>st_contract := settle (contract (env_library E) (env_method E)) (st_contract s)\<rparr>"
| "step E TxRequestSettles s =
     (case cell_state (st_contract s) of
        Done _ \<Rightarrow>
          (if inFlight (st_txRequest s)
           then s\<lparr>st_txRequest := settle (txRequest (env_library E) (env_method E)) (st_txRequest s),
                  st_initializePlans :=
                    (if \<not> isl (getDeploymentFunctionCalls (env_library E) (env_method E))
                     then Suc (st_initializePlans s) else st_initializePlans s)\<rparr>
           else s)
      | _ \<Rightarrow> s)"
| "step E (ResolutionSettles k) s =
     (if k < length (st_handles s) then
        (let h = st_handles s ! k
         in case cell_state (st_contract s) of
              Done r \<Rightarrow>
                (if inFlight (tx_contract h) then
                   (case r of
                      Inl e \<Rightarrow>
                        s\<lparr>st_handles := (st_handles s)[k := h\<lparr>tx_contract := settle (Inl e) (tx_contract h)\<rparr>]\<rparr>
                    | Inr c \<Rightarrow>
                        s\<lparr>st_handles := (st_handles s)[k := h
                            \<lparr>tx_contract :=
                               settle (postDeployCtor E (ci_address c) (dm_account (env_method E)))
                                 (tx_contract h),
                             tx_ctorCalls := Suc (tx_ctorCalls h)\<rparr>]\<rparr>)
                 else s)
            | _ \<Rightarrow> s)
      else s)"

fun run :: "deploy_env \<Rightarrow> event list \<Rightarrow> deploy_state \<Rightarrow> deploy_state" where
  "run E [] s = s"
| "run E (e # es) s = run E es (step E e s)"

text \<open>
  What the \<open>n\<close>-th \<open>wait(options)\<close> of a handle returns once its two awaits are over:
  the rejection of the base wait, the rejection of the contract thunk, or the receipt
  with the contract. \<open>None\<close>: the contract thunk has not completed.
\<close>

definition waitResult :: "deploy_env \<Rightarrow> nat \<Rightarrow> wait_opts option \<Rightarrow> deploy_sent_tx \<Rightarrow> (error + deploy_receipt) option" where
  "waitResult E n options h =
     (case superWait E n options of
        Inl e \<Rightarrow> Some (Inl e)
      | Inr receipt \<Rightarrow>
          (case cell_state (tx_contract h) of
             Done (Inl e) \<Rightarrow> Some (Inl e)
           | Done (Inr c) \<Rightarrow> Some (Inr (tx_receipt.extend receipt \<lparr>rc_contract = c\<rparr>))
           | _ \<Rightarrow> None))"

text \<open>
  \<open>await handle.wait(options)\<close> run to completion, with nothing else in between: the
  call, the base wait, the contract thunk and the computations it awaits.
\<close>

definition wait :: "deploy_env \<Rightarrow> nat \<Rightarrow> wait_opts option \<Rightarrow> deploy_state \<Rightarrow> (error + deploy_receipt) option \<times> deploy_state" where
  "wait E k options s =
     (if k < length (st_handles s) then
        (let n = tx_receiptWaits (st_handles s ! k);
             s' = run E [WaitCalled k, WaitResumed k n options, ContractSettles,
                         ResolutionSettles k] s
         in (waitResult E n options (st_handles s' ! k), s'))
      else (None, s))"

subsection \<open>Reachable states\<close>

text \<open>What holds of every state the events lead to: the invariant of the proofs.\<close>

definition cellOk :: "'a lazy_cell \<Rightarrow> bool" where
  "cellOk c = (cell_runs c = (if notStarted c then 0 else 1))"

definition handleOk :: "deploy_env \<Rightarrow> deploy_state \<Rightarrow> deploy_sent_tx \<Rightarrow> bool" where
  "handleOk E s h =
     (cellOk (tx_contract h) \<and>
      tx_ctorCalls h \<le> (case cell_state (tx_contract h) of Done _ \<Rightarrow> 1 | _ \<Rightarrow> 0) \<and>
      (notStarted (st_contract s) \<longrightarrow> notStarted (tx_contract h)) \<and>
      (\<forall>v. cell_state (tx_contract h) = Done v \<longrightarrow> v = resolveContract E))"

definition stateOk :: "deploy_env \<Rightarrow> deploy_state \<Rightarrow> bool" where
  "stateOk E s =
     (cellOk (st_contract s) \<and> cellOk (st_txRequest s) \<and>
      st_deploymentPlans s = cell_runs (st_txRequest s) \<and>
      st_initializePlans s \<le> (case cell_state (st_txRequest s) of Done _ \<Rightarrow> 1 | _ \<Rightarrow> 0) \<and>
      (notStarted (st_contract s) \<longrightarrow> notStarted (st_txRequest s)) \<and>
      (\<forall>k < length (st_handles s). handleOk E s (st_handles s ! k)) \<and>
      (\<forall>v. cell_state (st_contract s) = Done v \<longrightarrow>
           v = contract (env_library E) (env_method E)) \<and>
      (\<forall>v. cell_state (st_txRequest s) = Done v \<longrightarrow>
           v = txRequest (env_library E) (env_method E)) \<and>
      length (st_handles s) = st_submissions s)"

text \<open>Per \<open>DeployMethod\<close> object: how often a contract thunk was started, and how often
  \<open>postDeployCtor\<close> was called, over all its handles.\<close>

definition resolutionRuns :: "deploy_state \<Rightarrow> nat" where
  "resolutionRuns s = sum_list (map (cell_runs \<circ> tx_contract) (st_handles s))"

definition ctorCalls :: "deploy_state \<Rightarrow> nat" where
  "ctorCalls s = sum_list (map tx_ctorCalls (st_handles s))"

section \<open>The steps of a deployment, in the words of the specification\<close>

text \<open>
  The specification counts the steps that are "non-skipped and applicable": the class is
  registered when registration is not skipped and the node does not know the class, the
  instance is deployed when deployment is not skipped, the constructor runs when
  initialization is not skipped and a constructor exists. These predicates follow those
  words; the theorems compare them with what \<open>txRequest\<close> builds.
\<close>

definition spec_registerApplicable :: "deploy_method \<Rightarrow> contract_info \<Rightarrow> bool" where
  "spec_registerApplicable d c =
     (\<not> skipClassRegistration (dm_options d) \<and>
      getContractClass (aztecNode (dm_account d)) (contractClassId (ci_instance c)) = None)"

definition spec_deployApplicable :: "deploy_method \<Rightarrow> bool" where
  "spec_deployApplicable d = (\<not> skipPublicDeployment (dm_options d))"

definition spec_initializeApplicable :: "deploy_method \<Rightarrow> bool" where
  "spec_initializeApplicable d =
     (\<not> skipInitialization (dm_options d) \<and> dm_constructorArtifact d \<noteq> None)"

definition spec_applicableSteps :: "deploy_method \<Rightarrow> contract_info \<Rightarrow> nat" where
  "spec_applicableSteps d c =
     (if spec_registerApplicable d c then 1 else 0) +
     (if spec_deployApplicable d then 1 else 0) +
     (if spec_initializeApplicable d then 1 else 0)"

section \<open>Concrete deployments\<close>

text \<open>
  A small network used to run the definitions: the two protocol contracts are registered
  at addresses 3 and 2, no contract class is published yet, and the contract \<open>Counter\<close>
  has a constructor taking one integer.
\<close>

definition exClassId :: "contract_artifact \<Rightarrow> fr" where
  "exClassId a =
     (if art_name a = ''ContractClassRegisterer'' then Fr 23
      else if art_name a = ''ContractInstanceDeployer'' then Fr 24
      else Fr 7)"

definition exClassOf :: "contract_artifact \<Rightarrow> contract_class" where
  "exClassOf a =
     \<lparr>cc_id = exClassId a, artifactHash = Fr 11, privateFunctionsRoot = Fr 12,
      publicBytecodeCommitment = Fr 13, packedBytecode = [1, 2, 3]\<rparr>"

definition exInstanceOf :: "contract_artifact \<Rightarrow> deploy_params \<Rightarrow> contract_instance" where
  "exInstanceOf a p =
     \<lparr>address = AztecAddress 100, contractClassId = exClassId a,
      deployer = dp_deployer p,
      salt = (case dp_salt p of Some s \<Rightarrow> s | None \<Rightarrow> Fr 42),
      publicKeys = dp_publicKeys p, initializationHash = Fr 9\<rparr>"

definition exBufferAsFields :: "nat list \<Rightarrow> nat \<Rightarrow> error + fr list" where
  "exBufferAsFields bs n =
     (if n < Suc (length bs) then Inl EncodingError
      else Inr (Fr (length bs) # map Fr bs @ replicate (n - Suc (length bs)) (Fr 0)))"

definition exRegistererArtifact :: contract_artifact where
  "exRegistererArtifact =
     \<lparr>art_name = ''ContractClassRegisterer'', art_functions = [\<lparr>fn_name = ''register''\<rparr>]\<rparr>"

definition exDeployerArtifact :: contract_artifact where
  "exDeployerArtifact =
     \<lparr>art_name = ''ContractInstanceDeployer'', art_functions = [\<lparr>fn_name = ''deploy''\<rparr>]\<rparr>"

definition exLibrary :: library where
  "exLibrary =
     \<lparr>getContractInstanceFromDeployParams = exInstanceOf,
      getContractClassFromArtifact = exClassOf,
      bufferAsFields = exBufferAsFields,
      MAX_PACKED_PUBLIC_BYTECODE_SIZE_IN_FIELDS = 5,
      getCanonicalClassRegisterer =
        \<lparr>pc_contractClass = exClassOf exRegistererArtifact, pc_artifact = exRegistererArtifact\<rparr>,
      getCanonicalInstanceDeployer =
        \<lparr>pc_contractClass = exClassOf exDeployerArtifact, pc_artifact = exDeployerArtifact\<rparr>,
      ContractClassRegisterer = AztecAddress 3,
      ContractInstanceDeployer = AztecAddress 2\<rparr>"

text \<open>A library whose instance derivation reports a class id the artifact does not have.\<close>

definition exBadLibrary :: library where
  "exBadLibrary =
     exLibrary\<lparr>getContractInstanceFromDeployParams :=
       (\<lambda>a p. (exInstanceOf a p)\<lparr>contractClassId := Fr 0\<rparr>)\<rparr>"

definition exProtocolInstance :: "nat \<Rightarrow> contract_artifact \<Rightarrow> contract_instance" where
  "exProtocolInstance n a =
     \<lparr>address = AztecAddress n, contractClassId = cc_id (exClassOf a), deployer = ZERO,
      salt = Fr 1, publicKeys = PublicKeys 0, initializationHash = Fr 0\<rparr>"

definition exNode :: aztec_node where
  "exNode =
     \<lparr>getContractClass = (\<lambda>_. None),
      getContract = (\<lambda>a.
        if a = AztecAddress 3 then Some (exProtocolInstance 3 exRegistererArtifact)
        else if a = AztecAddress 2 then Some (exProtocolInstance 2 exDeployerArtifact)
        else None)\<rparr>"

definition exAccount :: account where
  "exAccount = \<lparr>getAddress = AztecAddress 7, aztecNode = exNode\<rparr>"

definition exArtifact :: contract_artifact where
  "exArtifact =
     \<lparr>art_name = ''Counter'',
      art_functions = [\<lparr>fn_name = ''constructor''\<rparr>, \<lparr>fn_name = ''increment''\<rparr>]\<rparr>"

definition exOptions :: deploy_options where
  "exOptions =
     \<lparr>contractAddressSalt = None, universalDeploy = False, skipClassRegistration = False,
      skipPublicDeployment = False, skipInitialization = False\<rparr>"

definition exDeploy :: deploy_method where
  "exDeploy =
     \<lparr>dm_publicKeys = PublicKeys 1, dm_account = exAccount, dm_artifact = exArtifact,
      dm_args = [VInt 5], dm_options = exOptions,
      dm_constructorArtifact = Some \<lparr>fn_name = ''constructor''\<rparr>\<rparr>"

text \<open>Every step skipped, and no constructor.\<close>

definition exSkipAll :: deploy_method where
  "exSkipAll =
     exDeploy\<lparr>dm_options := exOptions\<lparr>skipClassRegistration := True,
                  skipPublicDeployment := True, skipInitialization := True\<rparr>,
               dm_constructorArtifact := None\<rparr>"


definition exZeroSender :: deploy_method where
  "exZeroSender = exDeploy\<lparr>dm_account := exAccount\<lparr>getAddress := ZERO\<rparr>\<rparr>"

definition exDeployerHandle :: unsafe_contract where
  "exDeployerHandle =
     \<lparr>uc_instance = exProtocolInstance 2 exDeployerArtifact, uc_artifact = exDeployerArtifact,
      uc_account = exAccount\<rparr>"



text \<open>A wallet session that answers \<open>aztec_accounts\<close> and rejects everything else, and a
  confirmation callback that throws.\<close>

definition exModal :: web3modal where
  "exModal =
     \<lparr>wm_getSession = Inr (Some \<lparr>topic = ''t1''\<rparr>),
      wm_request = (\<lambda>chain tp r.
        if rq_method r = ''aztec_accounts'' then Inr ''[0x07]'' else Inl (Rejected ''user rejected''))\<rparr>"

definition exSdk :: reown_wallet_sdk where
  "exSdk =
     \<lparr>getWeb3Modal = Inr exModal,
      onRequest = (\<lambda>r ac. (None, ac)),
      METHODS_NOT_REQUIRING_CONFIRMATION = [''aztec_accounts''],
      CAIP_chain = ''aztec:1''\<rparr>"

definition exThrowingSdk :: reown_wallet_sdk where
  "exThrowingSdk = exSdk\<lparr>onRequest := (\<lambda>r ac. (Some (Thrown ''no UI''), ac))\<rparr>"

definition exSendTx :: rpc_request where
  "exSendTx = \<lparr>rq_method = ''aztec_sendTransaction'', rq_params = []\<rparr>"

definition exAccounts :: rpc_request where
  "exAccounts = \<lparr>rq_method = ''aztec_accounts'', rq_params = []\<rparr>"

text \<open>The lifecycle of \<open>exDeploy\<close>: a base wait that times out on its first call, one
  that resolves at once, and a run with two calls of \<open>send\<close>, each handle waited on.\<close>

definition exReceipt :: tx_receipt where
  "exReceipt = \<lparr>rc_txHash = 77, rc_status = ''success''\<rparr>"

definition exEnv :: deploy_env where
  "exEnv =
     \<lparr>env_library = exLibrary, env_method = exDeploy,
      postDeployCtor = (\<lambda>a acct. Inr \<lparr>dc_address = a, dc_account = acct\<rparr>),
      superWait = (\<lambda>n options. if n = 0 then Inl (NodeError ''timeout'') else Inr exReceipt)\<rparr>"

definition exPromptEnv :: deploy_env where
  "exPromptEnv = exEnv\<lparr>superWait := (\<lambda>n options. Inr exReceipt)\<rparr>"

definition exTwoSends :: "event list" where
  "exTwoSends =
     [Send, Send, ContractSettles, TxRequestSettles,
      WaitCalled 0, WaitResumed 0 0 None, ResolutionSettles 0,
      WaitCalled 1, WaitResumed 1 0 None, ResolutionSettles 1]"

section \<open>Properties\<close>

lemmas ex_defs = exClassId_def exClassOf_def exInstanceOf_def exBufferAsFields_def
  exRegistererArtifact_def exDeployerArtifact_def exLibrary_def exProtocolInstance_def exNode_def
  exAccount_def exArtifact_def exOptions_def exDeploy_def

lemmas plan_defs = txRequest_def getDeploymentFunctionCalls_def getInitializeFunctionCalls_def
  contract_def deployParams_def registerContractClass_def deployInstance_def
  getRegistererContract_def getDeployerContract_def getProtocolContract_def
  fetchProtocolContractArtifact_def request_def methods_def isZero_def ZERO_def

subsection \<open>Shape of the sub-plans and of the request\<close>

lemma getInitializeFunctionCalls_Inr:
  assumes "contract L d = Inr c"
  shows "getInitializeFunctionCalls L d =
           Inr \<lparr>plan_calls =
                  (case dm_constructorArtifact d of
                     Some ctor \<Rightarrow>
                       if skipInitialization (dm_options d) then []
                       else [request \<lparr>fi_target = ci_address c, fi_account = dm_account d,
                                      fi_function = fn_name ctor, fi_args = dm_args d\<rparr>]
                   | None \<Rightarrow> []),
                plan_capsules = []\<rparr>"
  using assms
  by (simp add: getInitializeFunctionCalls_def split: option.splits)

lemma getDeploymentFunctionCalls_Inr:
  assumes "getDeploymentFunctionCalls L d = Inr p"
  shows "\<exists>c regs deps.
           contract L d = Inr c \<and> plan_calls p = regs @ deps \<and>
           (if spec_registerApplicable d c
            then \<exists>r. registerContractClass L (dm_account d) (ci_artifact c) = Inr r \<and>
                     regs = [reg_call r] \<and> plan_capsules p = [reg_capsule r]
            else regs = [] \<and> plan_capsules p = []) \<and>
           (if spec_deployApplicable d
            then \<exists>i. deployInstance L (dm_account d) (ci_instance c) = Inr i \<and>
                     deps = [request i]
            else deps = [])"
  using assms
  by (auto simp: getDeploymentFunctionCalls_def spec_registerApplicable_def
      spec_deployApplicable_def Let_def split: sum.splits if_splits)

lemma txRequest_Inr:
  assumes "txRequest L d = Inr req"
  shows "\<exists>c dep boot.
           contract L d = Inr c \<and> getDeploymentFunctionCalls L d = Inr dep \<and>
           getInitializeFunctionCalls L d = Inr boot \<and>
           calls req = plan_calls dep @ plan_calls boot \<and>
           capsules req = plan_capsules dep @ plan_capsules boot \<and>
           registerContracts req = [c] \<and> calls req \<noteq> []"
  using assms
  by (auto simp: txRequest_def split: sum.splits if_splits)

lemma steps_Inr:
  assumes "txRequest L d = Inr req" and "contract L d = Inr c"
  shows "length (calls req) = spec_applicableSteps d c"
proof -
  from txRequest_Inr [OF assms(1)] assms(2) obtain dep boot where
    dep: "getDeploymentFunctionCalls L d = Inr dep" and
    boot: "getInitializeFunctionCalls L d = Inr boot" and
    cs: "calls req = plan_calls dep @ plan_calls boot"
    by auto
  from getDeploymentFunctionCalls_Inr [OF dep] assms(2)
  have "length (plan_calls dep) =
          (if spec_registerApplicable d c then 1 else 0) + (if spec_deployApplicable d then 1 else 0)"
    by (auto split: if_splits)
  moreover from boot getInitializeFunctionCalls_Inr [OF assms(2)]
  have "length (plan_calls boot) = (if spec_initializeApplicable d then 1 else 0)"
    by (auto simp: spec_initializeApplicable_def split: option.splits)
  ultimately show ?thesis
    using cs by (simp add: spec_applicableSteps_def)
qed

lemma getDeploymentFunctionCalls_skip:
  assumes "contract L d = Inr c" "\<not> spec_registerApplicable d c" "\<not> spec_deployApplicable d"
  shows "getDeploymentFunctionCalls L d = Inr \<lparr>plan_calls = [], plan_capsules = []\<rparr>"
  using assms
  by (auto simp: getDeploymentFunctionCalls_def spec_registerApplicable_def
      spec_deployApplicable_def Let_def)

lemma getDeploymentFunctionCalls_total:
  assumes "contract L d = Inr c"
    and "spec_registerApplicable d c \<longrightarrow>
           (\<exists>r. registerContractClass L (dm_account d) (ci_artifact c) = Inr r)"
    and "spec_deployApplicable d \<longrightarrow>
           (\<exists>i. deployInstance L (dm_account d) (ci_instance c) = Inr i)"
  shows "\<exists>p. getDeploymentFunctionCalls L d = Inr p"
  using assms
  by (auto simp: getDeploymentFunctionCalls_def spec_registerApplicable_def
      spec_deployApplicable_def Let_def)


lemma exDeploy_contract:
  "contract exLibrary exDeploy =
     Inr \<lparr>ci_address = AztecAddress 100,
          ci_instance = exInstanceOf exArtifact (deployParams exDeploy),
          ci_artifact = exArtifact\<rparr>"
  by (simp add: contract_def ex_defs)

lemma exSkipAll_contract:
  "contract exLibrary exSkipAll =
     Inr \<lparr>ci_address = AztecAddress 100,
          ci_instance = exInstanceOf exArtifact (deployParams exSkipAll),
          ci_artifact = exArtifact\<rparr>"
  by (simp add: contract_def exSkipAll_def ex_defs)

subsection \<open>Descriptor construction\<close>

text \<open>
  C5. The class id computed from the artifact is compared with the class id of the derived
  instance. Whenever the two differ, the descriptor build fails with
  \<open>ContractClassMismatch\<close>: no \<open>ContractInfo\<close> is produced, and both sub-plans and the
  request fail with the same error (nothing falls back or retries). When they agree, the
  descriptor is the derived instance with its address and the artifact.
\<close>

theorem contract_class_mismatch_fatal:
  fixes L d
  defines "instanceId \<equiv>
    contractClassId (getContractInstanceFromDeployParams L (dm_artifact d) (deployParams d))"
  defines "artifactId \<equiv> cc_id (getContractClassFromArtifact L (dm_artifact d))"
  shows "(instanceId \<noteq> artifactId \<longrightarrow>
            contract L d = Inl (ContractClassMismatch instanceId artifactId) \<and>
            (\<forall>c. contract L d \<noteq> Inr c) \<and>
            getDeploymentFunctionCalls L d = Inl (ContractClassMismatch instanceId artifactId) \<and>
            getInitializeFunctionCalls L d = Inl (ContractClassMismatch instanceId artifactId) \<and>
            txRequest L d = Inl (ContractClassMismatch instanceId artifactId)) \<and>
         (instanceId = artifactId \<longrightarrow>
            contract L d =
              Inr \<lparr>ci_address =
                     address (getContractInstanceFromDeployParams L (dm_artifact d) (deployParams d)),
                   ci_instance = getContractInstanceFromDeployParams L (dm_artifact d) (deployParams d),
                   ci_artifact = dm_artifact d\<rparr>)"
proof (intro conjI impI)
  assume ne: "instanceId \<noteq> artifactId"
  then show c: "contract L d = Inl (ContractClassMismatch instanceId artifactId)"
    by (simp add: contract_def Let_def instanceId_def artifactId_def)
  then show "\<forall>c. contract L d \<noteq> Inr c" by simp
  from c show "getDeploymentFunctionCalls L d = Inl (ContractClassMismatch instanceId artifactId)"
    by (simp add: getDeploymentFunctionCalls_def)
  then show "txRequest L d = Inl (ContractClassMismatch instanceId artifactId)"
    by (simp add: txRequest_def)
  from c show "getInitializeFunctionCalls L d = Inl (ContractClassMismatch instanceId artifactId)"
    by (simp add: getInitializeFunctionCalls_def)
next
  assume "instanceId = artifactId"
  then show "contract L d =
              Inr \<lparr>ci_address =
                     address (getContractInstanceFromDeployParams L (dm_artifact d) (deployParams d)),
                   ci_instance = getContractInstanceFromDeployParams L (dm_artifact d) (deployParams d),
                   ci_artifact = dm_artifact d\<rparr>"
    by (simp add: contract_def Let_def instanceId_def artifactId_def)
qed

theorem contract_class_mismatch_fatal_witness:
  "contract exBadLibrary exDeploy = Inl (ContractClassMismatch (Fr 0) (Fr 7)) \<and>
   txRequest exBadLibrary exDeploy = Inl (ContractClassMismatch (Fr 0) (Fr 7)) \<and>
   contract exLibrary exDeploy =
     Inr \<lparr>ci_address = AztecAddress 100,
          ci_instance = exInstanceOf exArtifact (deployParams exDeploy),
          ci_artifact = exArtifact\<rparr>"
  using contract_class_mismatch_fatal [of exBadLibrary exDeploy]
    contract_class_mismatch_fatal [of exLibrary exDeploy]
  by (simp add: exBadLibrary_def ex_defs)

subsection \<open>Protocol contract resolution\<close>

text \<open>
  C7. Resolving a protocol contract fails with \<open>NotRegistered\<close> when the node reports no
  instance at the address. Otherwise the outcome depends on the two canonical candidates
  only, the class registerer first and the instance deployer second: the handle carries
  the artifact of the first candidate whose class id equals the \<open>contractClassId\<close> the
  node reported, and the resolution fails with \<open>ArtifactNotFound\<close> when neither matches.
\<close>

theorem getProtocolContract_cases:
  "(getContract (aztecNode acct) addr = None \<longrightarrow>
      getProtocolContract L addr acct = Inl (NotRegistered addr)) \<and>
   (\<forall>ci. getContract (aztecNode acct) addr = Some ci \<longrightarrow>
      getProtocolContract L addr acct =
        (if cc_id (pc_contractClass (getCanonicalClassRegisterer L)) = contractClassId ci
         then Inr \<lparr>uc_instance = ci, uc_artifact = pc_artifact (getCanonicalClassRegisterer L),
                   uc_account = acct\<rparr>
         else if cc_id (pc_contractClass (getCanonicalInstanceDeployer L)) = contractClassId ci
         then Inr \<lparr>uc_instance = ci, uc_artifact = pc_artifact (getCanonicalInstanceDeployer L),
                   uc_account = acct\<rparr>
         else Inl (ArtifactNotFound addr)))"
  by (simp add: getProtocolContract_def fetchProtocolContractArtifact_def)

theorem getProtocolContract_cases_witness:
  "getProtocolContract exLibrary (AztecAddress 9) exAccount = Inl (NotRegistered (AztecAddress 9)) \<and>
   getProtocolContract exLibrary (AztecAddress 2) exAccount =
     Inr \<lparr>uc_instance = exProtocolInstance 2 exDeployerArtifact,
          uc_artifact = exDeployerArtifact, uc_account = exAccount\<rparr> \<and>
   getProtocolContract exLibrary (AztecAddress 2)
       (exAccount\<lparr>aztecNode := exNode\<lparr>getContract := (\<lambda>a. Some (exProtocolInstance 2 exArtifact))\<rparr>\<rparr>) =
     Inl (ArtifactNotFound (AztecAddress 2))"
proof -
  have a: "getContract (aztecNode exAccount) (AztecAddress 9) = None"
    by (simp add: exAccount_def exNode_def)
  have b: "getContract (aztecNode exAccount) (AztecAddress 2) =
             Some (exProtocolInstance 2 exDeployerArtifact)"
    by (simp add: exAccount_def exNode_def)
  let ?acct =
    "exAccount\<lparr>aztecNode := exNode\<lparr>getContract := (\<lambda>a. Some (exProtocolInstance 2 exArtifact))\<rparr>\<rparr>"
  have c: "getContract (aztecNode ?acct) (AztecAddress 2) = Some (exProtocolInstance 2 exArtifact)"
    by simp
  show ?thesis
    using getProtocolContract_cases [of exAccount "AztecAddress 9" exLibrary] a
      getProtocolContract_cases [of exAccount "AztecAddress 2" exLibrary] b
      getProtocolContract_cases [of ?acct "AztecAddress 2" exLibrary] c
    by (simp add: exLibrary_def exClassId_def exClassOf_def exProtocolInstance_def exDeployerArtifact_def
        exRegistererArtifact_def exArtifact_def)
qed

subsection \<open>Planned calls\<close>

text \<open>
  C1. Once the descriptor is built, for every combination of the three skip flags, of a
  constructor being present or not and of the node knowing the class or not: a request
  that is returned holds exactly one call per non-skipped, applicable step (and at least
  one call); when no step is applicable the build fails with \<open>NothingToDeploy\<close>; and
  when some step is applicable and the calls of the applicable registration and
  deployment steps can be built, a request with that many calls is returned.
\<close>

theorem txRequest_call_count:
  assumes "contract L d = Inr c"
  shows "(\<forall>req. txRequest L d = Inr req \<longrightarrow>
            length (calls req) = spec_applicableSteps d c \<and> 0 < length (calls req)) \<and>
         (spec_applicableSteps d c = 0 \<longrightarrow>
            txRequest L d = Inl (NothingToDeploy (art_name (dm_artifact d)))) \<and>
         (0 < spec_applicableSteps d c \<and>
          (spec_registerApplicable d c \<longrightarrow>
             (\<exists>r. registerContractClass L (dm_account d) (ci_artifact c) = Inr r)) \<and>
          (spec_deployApplicable d \<longrightarrow>
             (\<exists>i. deployInstance L (dm_account d) (ci_instance c) = Inr i)) \<longrightarrow>
          (\<exists>req. txRequest L d = Inr req \<and> length (calls req) = spec_applicableSteps d c))"
proof -
  have A: "length (calls req) = spec_applicableSteps d c \<and> 0 < length (calls req)"
    if r: "txRequest L d = Inr req" for req
  proof -
    have "calls req \<noteq> []" using txRequest_Inr [OF r] by blast
    then have "0 < length (calls req)" by simp
    with steps_Inr [OF r assms] show ?thesis by simp
  qed
  have B: "txRequest L d = Inl (NothingToDeploy (art_name (dm_artifact d)))"
    if z: "spec_applicableSteps d c = 0"
  proof -
    from z have no: "\<not> spec_registerApplicable d c" "\<not> spec_deployApplicable d"
      "\<not> spec_initializeApplicable d"
      by (auto simp: spec_applicableSteps_def split: if_splits)
    have "getDeploymentFunctionCalls L d = Inr \<lparr>plan_calls = [], plan_capsules = []\<rparr>"
      using getDeploymentFunctionCalls_skip [OF assms no(1,2)] .
    moreover have "getInitializeFunctionCalls L d = Inr \<lparr>plan_calls = [], plan_capsules = []\<rparr>"
      using getInitializeFunctionCalls_Inr [OF assms] no(3)
      by (auto simp: spec_initializeApplicable_def split: option.splits)
    ultimately show ?thesis
      by (simp add: txRequest_def)
  qed
  have C: "\<exists>req. txRequest L d = Inr req \<and> length (calls req) = spec_applicableSteps d c"
    if pos: "0 < spec_applicableSteps d c"
      and reg: "spec_registerApplicable d c \<longrightarrow>
             (\<exists>r. registerContractClass L (dm_account d) (ci_artifact c) = Inr r)"
      and dep: "spec_deployApplicable d \<longrightarrow>
             (\<exists>i. deployInstance L (dm_account d) (ci_instance c) = Inr i)"
  proof -
    obtain p where p: "getDeploymentFunctionCalls L d = Inr p"
      using getDeploymentFunctionCalls_total [OF assms reg dep] by blast
    obtain b where b: "getInitializeFunctionCalls L d = Inr b"
      using getInitializeFunctionCalls_Inr [OF assms] by blast
    have lp: "length (plan_calls p) =
            (if spec_registerApplicable d c then 1 else 0) +
            (if spec_deployApplicable d then 1 else 0)"
      using getDeploymentFunctionCalls_Inr [OF p] assms by (auto split: if_splits)
    have lb: "length (plan_calls b) = (if spec_initializeApplicable d then 1 else 0)"
      using b getInitializeFunctionCalls_Inr [OF assms]
      by (auto simp: spec_initializeApplicable_def split: option.splits)
    from pos lp lb have "length (plan_calls p) + length (plan_calls b) \<noteq> 0"
      by (simp add: spec_applicableSteps_def)
    then obtain req where r: "txRequest L d = Inr req"
      using p b assms by (simp add: txRequest_def)
    then show ?thesis
      using steps_Inr [OF r assms] by blast
  qed
  from A B C show ?thesis by blast
qed

theorem txRequest_call_count_witness:
  "(\<exists>req. txRequest exLibrary exDeploy = Inr req \<and> length (calls req) = 3) \<and>
   txRequest exLibrary exSkipAll = Inl (NothingToDeploy ''Counter'')"
proof -
  let ?c = "\<lparr>ci_address = AztecAddress 100,
          ci_instance = exInstanceOf exArtifact (deployParams exDeploy),
          ci_artifact = exArtifact\<rparr>"
  let ?c' = "\<lparr>ci_address = AztecAddress 100,
          ci_instance = exInstanceOf exArtifact (deployParams exSkipAll),
          ci_artifact = exArtifact\<rparr>"
  have s3: "spec_applicableSteps exDeploy ?c = 3"
    by (simp add: spec_applicableSteps_def spec_registerApplicable_def spec_deployApplicable_def
        spec_initializeApplicable_def ex_defs)
  have s0: "spec_applicableSteps exSkipAll ?c' = 0"
    by (simp add: spec_applicableSteps_def spec_registerApplicable_def spec_deployApplicable_def
        spec_initializeApplicable_def exSkipAll_def ex_defs)
  have r: "\<exists>r. registerContractClass exLibrary (dm_account exDeploy) (ci_artifact ?c) = Inr r"
    by (simp add: plan_defs ex_defs)
  have i: "\<exists>i. deployInstance exLibrary (dm_account exDeploy) (ci_instance ?c) = Inr i"
    by (simp add: plan_defs ex_defs)
  show ?thesis
    using txRequest_call_count [OF exDeploy_contract] txRequest_call_count [OF exSkipAll_contract]
      s3 s0 r i
    by (simp add: exSkipAll_def ex_defs)
qed

text \<open>
  C2. In every assembled request the calls are three consecutive segments, each empty or a
  single call: the register-class call (present when registration is applicable), then the
  deploy-instance call (present when deployment is not skipped), then the constructor call
  (present when a constructor exists and initialization is not skipped); the first two
  segments are the calls of the deployment sub-plan and the third those of the
  initialization sub-plan. The capsules are those of the deployment sub-plan followed by
  those of the initialization sub-plan, and \<open>registerContracts\<close> is the \<open>ContractInfo\<close> of
  the contract being deployed.
\<close>

theorem txRequest_order:
  assumes "txRequest L d = Inr req"
  shows "\<exists>c dep boot regs deps inits.
           contract L d = Inr c \<and>
           getDeploymentFunctionCalls L d = Inr dep \<and>
           getInitializeFunctionCalls L d = Inr boot \<and>
           calls req = regs @ deps @ inits \<and>
           plan_calls dep = regs @ deps \<and> plan_calls boot = inits \<and>
           (if spec_registerApplicable d c
            then \<exists>r. registerContractClass L (dm_account d) (ci_artifact c) = Inr r \<and>
                     regs = [reg_call r]
            else regs = []) \<and>
           (if spec_deployApplicable d
            then \<exists>i. deployInstance L (dm_account d) (ci_instance c) = Inr i \<and>
                     deps = [request i]
            else deps = []) \<and>
           inits =
             (case dm_constructorArtifact d of
                Some ctor \<Rightarrow>
                  if skipInitialization (dm_options d) then []
                  else [request \<lparr>fi_target = ci_address c, fi_account = dm_account d,
                                 fi_function = fn_name ctor, fi_args = dm_args d\<rparr>]
              | None \<Rightarrow> []) \<and>
           capsules req = plan_capsules dep @ plan_capsules boot \<and>
           registerContracts req = [c]"
proof -
  from txRequest_Inr [OF assms] obtain c dep boot where
    c: "contract L d = Inr c" and dep: "getDeploymentFunctionCalls L d = Inr dep" and
    boot: "getInitializeFunctionCalls L d = Inr boot" and
    cs: "calls req = plan_calls dep @ plan_calls boot" and
    caps: "capsules req = plan_capsules dep @ plan_capsules boot" and
    reg: "registerContracts req = [c]"
    by blast
  from getDeploymentFunctionCalls_Inr [OF dep] c obtain regs deps where
    pd: "plan_calls dep = regs @ deps" and
    r: "if spec_registerApplicable d c
        then \<exists>r. registerContractClass L (dm_account d) (ci_artifact c) = Inr r \<and>
                 regs = [reg_call r] \<and> plan_capsules dep = [reg_capsule r]
        else regs = [] \<and> plan_capsules dep = []" and
    i: "if spec_deployApplicable d
        then \<exists>i. deployInstance L (dm_account d) (ci_instance c) = Inr i \<and> deps = [request i]
        else deps = []"
    by auto
  have r': "if spec_registerApplicable d c
            then \<exists>r. registerContractClass L (dm_account d) (ci_artifact c) = Inr r \<and>
                     regs = [reg_call r]
            else regs = []"
    using r by (auto split: if_splits)
  have b: "plan_calls boot =
             (case dm_constructorArtifact d of
                Some ctor \<Rightarrow>
                  if skipInitialization (dm_options d) then []
                  else [request \<lparr>fi_target = ci_address c, fi_account = dm_account d,
                                 fi_function = fn_name ctor, fi_args = dm_args d\<rparr>]
              | None \<Rightarrow> [])"
    using boot getInitializeFunctionCalls_Inr [OF c] by auto
  have "calls req = regs @ deps @ plan_calls boot"
    using cs pd by simp
  with c dep boot pd r' i b caps reg show ?thesis
    by blast
qed

theorem txRequest_order_witness:
  "\<exists>r. txRequest exLibrary exDeploy = Inr r \<and>
        map call_name (calls r) = [''register'', ''deploy'', ''constructor''] \<and>
        map call_to (calls r) = [AztecAddress 3, AztecAddress 2, AztecAddress 100] \<and>
        length (capsules r) = 1 \<and>
        map ci_address (registerContracts r) = [AztecAddress 100]"
proof -
  obtain r where r: "txRequest exLibrary exDeploy = Inr r"
    by (simp add: plan_defs ex_defs)
  from txRequest_order [OF r] r show ?thesis
    by (auto simp: plan_defs ex_defs)
qed

subsection \<open>Capsules\<close>

text \<open>
  C9. An assembled request has at most one capsule. Its calls are the register segment,
  the deploy segment and the constructor segment, each empty or the one call of its step,
  and the capsules are as many as the register segment is long: the capsule of the
  register-class call when that call is present, none when it is not. The initialization
  sub-plan never returns a capsule, and the deployment sub-plan with the deploy-instance
  step has the same capsules as without it, and one call more.
\<close>

theorem txRequest_capsules:
  assumes "txRequest L d = Inr req"
  shows "length (capsules req) \<le> 1 \<and>
         (\<exists>c regs deps inits.
            contract L d = Inr c \<and> calls req = regs @ deps @ inits \<and>
            (if spec_registerApplicable d c
             then \<exists>r. registerContractClass L (dm_account d) (ci_artifact c) = Inr r \<and>
                      regs = [reg_call r] \<and> capsules req = [reg_capsule r]
             else regs = [] \<and> capsules req = []) \<and>
            (if spec_deployApplicable d
             then \<exists>i. deployInstance L (dm_account d) (ci_instance c) = Inr i \<and>
                      deps = [request i]
             else deps = []) \<and>
            inits =
              (case dm_constructorArtifact d of
                 Some ctor \<Rightarrow>
                   if skipInitialization (dm_options d) then []
                   else [request \<lparr>fi_target = ci_address c, fi_account = dm_account d,
                                  fi_function = fn_name ctor, fi_args = dm_args d\<rparr>]
               | None \<Rightarrow> []) \<and>
            length (capsules req) = length regs) \<and>
         (\<forall>L' d' boot. getInitializeFunctionCalls L' d' = Inr boot \<longrightarrow> plan_capsules boot = []) \<and>
         (\<forall>dep. getDeploymentFunctionCalls L d = Inr dep \<longrightarrow>
            (\<exists>dep'. getDeploymentFunctionCalls L
                      (d\<lparr>dm_options := (dm_options d)\<lparr>skipPublicDeployment := True\<rparr>\<rparr>) = Inr dep' \<and>
                    plan_capsules dep = plan_capsules dep' \<and>
                    length (plan_calls dep) =
                      length (plan_calls dep') + (if skipPublicDeployment (dm_options d) then 0 else 1)))"
proof -
  from txRequest_Inr [OF assms] obtain c dep boot where
    c: "contract L d = Inr c" and dep: "getDeploymentFunctionCalls L d = Inr dep" and
    boot: "getInitializeFunctionCalls L d = Inr boot" and
    cs: "calls req = plan_calls dep @ plan_calls boot" and
    caps: "capsules req = plan_capsules dep @ plan_capsules boot"
    by blast
  have nb: "plan_capsules boot = []"
    and bc: "plan_calls boot =
              (case dm_constructorArtifact d of
                 Some ctor \<Rightarrow>
                   if skipInitialization (dm_options d) then []
                   else [request \<lparr>fi_target = ci_address c, fi_account = dm_account d,
                                  fi_function = fn_name ctor, fi_args = dm_args d\<rparr>]
               | None \<Rightarrow> [])"
    using boot getInitializeFunctionCalls_Inr [OF c] by auto
  from getDeploymentFunctionCalls_Inr [OF dep] c obtain regs deps where
    pd: "plan_calls dep = regs @ deps" and
    r: "if spec_registerApplicable d c
        then \<exists>r. registerContractClass L (dm_account d) (ci_artifact c) = Inr r \<and>
                 regs = [reg_call r] \<and> plan_capsules dep = [reg_capsule r]
        else regs = [] \<and> plan_capsules dep = []" and
    i: "if spec_deployApplicable d
        then \<exists>i. deployInstance L (dm_account d) (ci_instance c) = Inr i \<and> deps = [request i]
        else deps = []"
    by auto
  have A: "length (capsules req) \<le> 1"
    using caps nb r by (auto split: if_splits)
  have r': "if spec_registerApplicable d c
          then \<exists>r. registerContractClass L (dm_account d) (ci_artifact c) = Inr r \<and>
                   regs = [reg_call r] \<and> capsules req = [reg_capsule r]
          else regs = [] \<and> capsules req = []"
    using r caps nb by (auto split: if_splits)
  have len: "length (capsules req) = length regs"
    using r' by (auto split: if_splits)
  have cs': "calls req = regs @ deps @ plan_calls boot"
    using cs pd by simp
  have B: "\<exists>c regs deps inits.
            contract L d = Inr c \<and> calls req = regs @ deps @ inits \<and>
            (if spec_registerApplicable d c
             then \<exists>r. registerContractClass L (dm_account d) (ci_artifact c) = Inr r \<and>
                      regs = [reg_call r] \<and> capsules req = [reg_capsule r]
             else regs = [] \<and> capsules req = []) \<and>
            (if spec_deployApplicable d
             then \<exists>i. deployInstance L (dm_account d) (ci_instance c) = Inr i \<and>
                      deps = [request i]
             else deps = []) \<and>
            inits =
              (case dm_constructorArtifact d of
                 Some ctor \<Rightarrow>
                   if skipInitialization (dm_options d) then []
                   else [request \<lparr>fi_target = ci_address c, fi_account = dm_account d,
                                  fi_function = fn_name ctor, fi_args = dm_args d\<rparr>]
               | None \<Rightarrow> []) \<and>
            length (capsules req) = length regs"
    using c cs' r' i bc len by blast
  have C: "plan_capsules b = []" if "getInitializeFunctionCalls L' d' = Inr b" for L' d' b
    using that by (auto simp: getInitializeFunctionCalls_def split: sum.splits option.splits if_splits)
  have D: "\<exists>dep'. getDeploymentFunctionCalls L
                      (d\<lparr>dm_options := (dm_options d)\<lparr>skipPublicDeployment := True\<rparr>\<rparr>) = Inr dep' \<and>
                    plan_capsules p = plan_capsules dep' \<and>
                    length (plan_calls p) =
                      length (plan_calls dep') + (if skipPublicDeployment (dm_options d) then 0 else 1)"
    if "getDeploymentFunctionCalls L d = Inr p" for p
    using that
    by (auto simp: getDeploymentFunctionCalls_def contract_def deployParams_def Let_def
        split: sum.splits if_splits)
  from A B C D show ?thesis by blast
qed

theorem txRequest_capsules_witness:
  "(\<exists>r. txRequest exLibrary exDeploy = Inr r \<and> length (capsules r) = 1 \<and>
        length (capsules r) \<le> 1 \<and> length (calls r) = 3) \<and>
   (\<exists>r. txRequest exLibrary (exDeploy\<lparr>dm_options := exOptions\<lparr>skipClassRegistration := True\<rparr>\<rparr>) = Inr r \<and>
        capsules r = [] \<and> length (capsules r) \<le> 1 \<and> length (calls r) = 2)"
proof -
  let ?d = "exDeploy\<lparr>dm_options := exOptions\<lparr>skipClassRegistration := True\<rparr>\<rparr>"
  obtain r where r: "txRequest exLibrary exDeploy = Inr r"
    and r1: "length (capsules r) = 1" "length (calls r) = 3"
    by (simp add: plan_defs ex_defs)
  obtain r' where r': "txRequest exLibrary ?d = Inr r'"
    and r2: "capsules r' = []" "length (calls r') = 2"
    by (simp add: plan_defs ex_defs)
  have "length (capsules r) \<le> 1" "length (capsules r') \<le> 1"
    using txRequest_capsules [OF r] txRequest_capsules [OF r'] by blast+
  with r r1 r' r2 show ?thesis by blast
qed

subsection \<open>Deployer check\<close>




text \<open>
  C10. Whether the deployment is universal is read from the descriptor, not from the
  option: the last argument of every deploy call is \<open>isZero\<close> of the recorded deployer.
  For a sender at the zero address and \<open>universalDeploy = false\<close>, when the library
  records the deployer it was given, the descriptor's deployer is zero, no sender can fail
  the deployer check on it, and the deploy call is built with \<open>isUniversalDeploy = true\<close>.
\<close>

theorem deployInstance_universal_by_zero_deployer:
  assumes "getAddress (dm_account d) = ZERO" and "\<not> universalDeploy (dm_options d)"
    and "deployer (getContractInstanceFromDeployParams L (dm_artifact d) (deployParams d)) =
           dp_deployer (deployParams d)"
    and "contract L d = Inr c"
    and "getDeployerContract L (dm_account d) = Inr dc"
  shows "deployer (ci_instance c) = ZERO \<and>
         (\<forall>acct x y. deployInstance L acct (ci_instance c) \<noteq> Inl (DeployerMismatch x y)) \<and>
         deployInstance L (dm_account d) (ci_instance c) =
           Inr (methods dc ''deploy''
                 [VField (salt (ci_instance c)), VField (contractClassId (ci_instance c)),
                  VField (initializationHash (ci_instance c)), VKeys (publicKeys (ci_instance c)),
                  VBool True]) \<and>
         (\<forall>acct inst i. deployInstance L acct inst = Inr i \<longrightarrow>
            last (fi_args i) = VBool (isZero (deployer inst)))"
proof -
  from assms(4) have ci: "ci_instance c = getContractInstanceFromDeployParams L (dm_artifact d) (deployParams d)"
    by (auto simp: contract_def Let_def split: if_splits)
  with assms(1,2,3) have z: "deployer (ci_instance c) = ZERO"
    by (simp add: deployParams_def)
  have a: "deployInstance L acct (ci_instance c) \<noteq> Inl (DeployerMismatch x y)" for acct x y
    using z by (auto simp: deployInstance_def isZero_def getDeployerContract_def getProtocolContract_def
        split: sum.splits option.splits)
  have b: "deployInstance L (dm_account d) (ci_instance c) =
           Inr (methods dc ''deploy''
                 [VField (salt (ci_instance c)), VField (contractClassId (ci_instance c)),
                  VField (initializationHash (ci_instance c)), VKeys (publicKeys (ci_instance c)),
                  VBool True])"
    using z assms(5) by (simp add: deployInstance_def isZero_def)
  have c: "last (fi_args i) = VBool (isZero (deployer inst))"
    if "deployInstance L acct inst = Inr i" for acct inst i
    using that by (auto simp: deployInstance_def methods_def Let_def split: sum.splits if_splits)
  from z a b c show ?thesis by blast
qed

theorem deployInstance_universal_by_zero_deployer_witness:
  "\<not> universalDeploy (dm_options exZeroSender) \<and>
   deployer (exInstanceOf exArtifact (deployParams exZeroSender)) = ZERO \<and>
   deployInstance exLibrary (dm_account exZeroSender)
       (exInstanceOf exArtifact (deployParams exZeroSender)) =
     Inr (methods (exDeployerHandle\<lparr>uc_account := dm_account exZeroSender\<rparr>) ''deploy''
           [VField (Fr 42), VField (Fr 7), VField (Fr 9), VKeys (PublicKeys 1), VBool True])"
proof -
  let ?c = "\<lparr>ci_address = AztecAddress 100,
          ci_instance = exInstanceOf exArtifact (deployParams exZeroSender),
          ci_artifact = exArtifact\<rparr>"
  have h1: "getAddress (dm_account exZeroSender) = ZERO"
    by (simp add: exZeroSender_def ex_defs)
  have h2: "\<not> universalDeploy (dm_options exZeroSender)"
    by (simp add: exZeroSender_def ex_defs)
  have h3: "deployer (getContractInstanceFromDeployParams exLibrary (dm_artifact exZeroSender)
              (deployParams exZeroSender)) = dp_deployer (deployParams exZeroSender)"
    by (simp add: exLibrary_def exInstanceOf_def)
  have h4: "contract exLibrary exZeroSender = Inr ?c"
    by (simp add: contract_def exZeroSender_def ex_defs)
  have h5: "getDeployerContract exLibrary (dm_account exZeroSender) =
              Inr (exDeployerHandle\<lparr>uc_account := dm_account exZeroSender\<rparr>)"
    by (simp add: plan_defs exZeroSender_def exDeployerHandle_def ex_defs)
  show ?thesis
    using deployInstance_universal_by_zero_deployer [OF h1 h2 h3 h4 h5] h2
    by (simp add: deployParams_def exZeroSender_def exDeployerHandle_def ex_defs)
qed

subsection \<open>Cancellation token of the wallet request\<close>

text \<open>
  Every way out of the \<open>try\<close> block aborts the controller: when the confirmation
  callback is not called or returns, the controller is aborted whatever the block yields
  (a result, a rejection of the modal, of the session lookup or of the transport, the
  failed session assertion).
\<close>

lemma requestRpc_try_exits_abort:
  assumes "rq_method req \<in> set (METHODS_NOT_REQUIRING_CONFIRMATION S) \<or>
           fst (onRequest S req \<lparr>aborted = False\<rparr>) = None"
  shows "aborted (snd (requestRpc S req)) \<and> fst (requestRpc S req) = requestBody S req"
  using assms
  by (auto simp: requestRpc_def Let_def split: prod.splits option.splits)

lemma requestRpc_try_exits_abort_examples:
  "requestRpc exSdk exAccounts = (Inr ''[0x07]'', \<lparr>aborted = True\<rparr>) \<and>
   requestRpc exSdk exSendTx = (Inl (Rejected ''user rejected''), \<lparr>aborted = True\<rparr>) \<and>
   requestRpc (exSdk\<lparr>getWeb3Modal := Inr (exModal\<lparr>wm_getSession := Inr None\<rparr>)\<rparr>) exSendTx =
     (Inl (AssertionError ''no session''), \<lparr>aborted = True\<rparr>) \<and>
   requestRpc (exSdk\<lparr>getWeb3Modal := Inl (Rejected ''import failed'')\<rparr>) exAccounts =
     (Inl (Rejected ''import failed''), \<lparr>aborted = True\<rparr>)"
proof -
  let ?S1 = "exSdk\<lparr>getWeb3Modal := Inr (exModal\<lparr>wm_getSession := Inr None\<rparr>)\<rparr>"
  let ?S2 = "exSdk\<lparr>getWeb3Modal := Inl (Rejected ''import failed'')\<rparr>"
  have a: "rq_method exAccounts \<in> set (METHODS_NOT_REQUIRING_CONFIRMATION exSdk) \<or>
           fst (onRequest exSdk exAccounts \<lparr>aborted = False\<rparr>) = None"
    and b: "rq_method exSendTx \<in> set (METHODS_NOT_REQUIRING_CONFIRMATION exSdk) \<or>
           fst (onRequest exSdk exSendTx \<lparr>aborted = False\<rparr>) = None"
    and c: "rq_method exSendTx \<in> set (METHODS_NOT_REQUIRING_CONFIRMATION ?S1) \<or>
           fst (onRequest ?S1 exSendTx \<lparr>aborted = False\<rparr>) = None"
    and d: "rq_method exAccounts \<in> set (METHODS_NOT_REQUIRING_CONFIRMATION ?S2) \<or>
           fst (onRequest ?S2 exAccounts \<lparr>aborted = False\<rparr>) = None"
    by (simp_all add: requestRpc_def requestBody_def getSession_def exModal_def exSdk_def
        exSendTx_def exAccounts_def)
  show ?thesis
    using requestRpc_try_exits_abort [OF a] requestRpc_try_exits_abort [OF b] requestRpc_try_exits_abort [OF c]
      requestRpc_try_exits_abort [OF d]
    by (simp add: requestRpc_def requestBody_def getSession_def exModal_def exSdk_def
        exSendTx_def exAccounts_def)
qed

text \<open>
  C8. The controller is to be aborted on every exit path of the request. The code misses
  one path: the confirmation callback is called before the \<open>try\<close> block is entered, so for
  a method that needs confirmation and a callback that throws, the request throws the
  callback's error and the controller is left not aborted.
\<close>

theorem requestRpc_throwing_callback_token_live:
  "fst (requestRpc exThrowingSdk exSendTx) = Inl (Thrown ''no UI'') \<and>
   \<not> aborted (snd (requestRpc exThrowingSdk exSendTx))"
  by (simp add: requestRpc_def requestBody_def getSession_def exModal_def exSdk_def
      exThrowingSdk_def exSendTx_def)

subsection \<open>Lifecycle: reachable states\<close>

lemma stateOk_new: "stateOk E newDeployMethod"
  by (simp add: stateOk_def newDeployMethod_def invoke_def settle_def notStarted_def inFlight_def lazyValue_def cellOk_def)

lemma stateOk_send: "stateOk E s \<Longrightarrow> stateOk E (send s)"
  unfolding stateOk_def handleOk_def send_def callTxRequest_def callContract_def Let_def
  by (auto simp: invoke_def settle_def notStarted_def inFlight_def lazyValue_def cellOk_def nth_append split: lazy_state.splits if_splits)

lemma stateOk_WaitCalled: "stateOk E s \<Longrightarrow> stateOk E (step E (WaitCalled k) s)"
  unfolding stateOk_def handleOk_def
  by (auto simp: invoke_def settle_def notStarted_def inFlight_def lazyValue_def cellOk_def nth_list_update split: lazy_state.splits if_splits)

lemma stateOk_callResolution:
  "stateOk E s \<Longrightarrow> k < length (st_handles s) \<Longrightarrow> stateOk E (callResolution k s)"
  unfolding stateOk_def handleOk_def callResolution_def callContract_def Let_def
  by (auto simp: invoke_def settle_def notStarted_def inFlight_def lazyValue_def cellOk_def nth_list_update split: lazy_state.splits if_splits)

lemma stateOk_ContractSettles: "stateOk E s \<Longrightarrow> stateOk E (step E ContractSettles s)"
  unfolding stateOk_def handleOk_def
  by (auto simp: invoke_def settle_def notStarted_def inFlight_def lazyValue_def cellOk_def split: lazy_state.splits if_splits)

lemma stateOk_TxRequestSettles: "stateOk E s \<Longrightarrow> stateOk E (step E TxRequestSettles s)"
  unfolding stateOk_def handleOk_def
  by (auto simp: invoke_def settle_def notStarted_def inFlight_def lazyValue_def cellOk_def split: lazy_state.splits if_splits)

lemma stateOk_ResolutionSettles: "stateOk E s \<Longrightarrow> stateOk E (step E (ResolutionSettles k) s)"
  unfolding stateOk_def handleOk_def
  by (auto simp: invoke_def settle_def notStarted_def inFlight_def lazyValue_def cellOk_def Let_def nth_list_update resolveContract_def
      split: lazy_state.splits sum.splits if_splits)

lemma stateOk_step:
  assumes "stateOk E s"
  shows "stateOk E (step E e s)"
proof (cases e)
  case Send
  with assms show ?thesis by (simp add: stateOk_send)
next
  case (WaitCalled k)
  with assms show ?thesis by (simp only: stateOk_WaitCalled)
next
  case (WaitResumed k n options)
  with assms show ?thesis by (simp add: stateOk_callResolution)
next
  case ContractSettles
  with assms show ?thesis by (simp only: stateOk_ContractSettles)
next
  case TxRequestSettles
  with assms show ?thesis by (simp only: stateOk_TxRequestSettles)
next
  case (ResolutionSettles k)
  with assms show ?thesis by (simp only: stateOk_ResolutionSettles)
qed

lemma stateOk_run: "stateOk E s \<Longrightarrow> stateOk E (run E es s)"
  by (induction es arbitrary: s) (simp_all add: stateOk_step)


subsection \<open>What is kept once computed\<close>

lemma contract_Done_step:
  "cell_state (st_contract s) = Done v \<Longrightarrow> cell_state (st_contract (step E e s)) = Done v"
  by (cases e)
     (auto simp: send_def callTxRequest_def callContract_def callResolution_def Let_def invoke_def settle_def notStarted_def inFlight_def lazyValue_def cellOk_def
       split: lazy_state.splits sum.splits if_splits)

lemma contract_Done_run:
  "cell_state (st_contract s) = Done v \<Longrightarrow> cell_state (st_contract (run E es s)) = Done v"
  by (induction es arbitrary: s) (simp_all add: contract_Done_step)

lemma txRequest_Done_step:
  "cell_state (st_txRequest s) = Done v \<Longrightarrow> cell_state (st_txRequest (step E e s)) = Done v"
  by (cases e)
     (auto simp: send_def callTxRequest_def callContract_def callResolution_def Let_def invoke_def settle_def notStarted_def inFlight_def lazyValue_def cellOk_def
       split: lazy_state.splits sum.splits if_splits)

lemma txRequest_Done_run:
  "cell_state (st_txRequest s) = Done v \<Longrightarrow> cell_state (st_txRequest (run E es s)) = Done v"
  by (induction es arbitrary: s) (simp_all add: txRequest_Done_step)

lemma handle_Done_step:
  assumes "k < length (st_handles s)" "cell_state (tx_contract (st_handles s ! k)) = Done v"
  shows "k < length (st_handles (step E e s)) \<and>
         cell_state (tx_contract (st_handles (step E e s) ! k)) = Done v \<and>
         cell_runs (tx_contract (st_handles (step E e s) ! k)) =
           cell_runs (tx_contract (st_handles s ! k)) \<and>
         tx_ctorCalls (st_handles (step E e s) ! k) = tx_ctorCalls (st_handles s ! k)"
  using assms
  by (cases e)
     (auto simp: send_def callTxRequest_def callContract_def callResolution_def Let_def invoke_def settle_def notStarted_def inFlight_def lazyValue_def cellOk_def
       nth_append nth_list_update split: lazy_state.splits sum.splits if_splits)

lemma handle_Done_run:
  assumes "k < length (st_handles s)" "cell_state (tx_contract (st_handles s ! k)) = Done v"
  shows "k < length (st_handles (run E es s)) \<and>
         cell_state (tx_contract (st_handles (run E es s) ! k)) = Done v \<and>
         cell_runs (tx_contract (st_handles (run E es s) ! k)) =
           cell_runs (tx_contract (st_handles s ! k)) \<and>
         tx_ctorCalls (st_handles (run E es s) ! k) = tx_ctorCalls (st_handles s ! k)"
  using assms
proof (induction es arbitrary: s)
  case Nil
  then show ?case by simp
next
  case (Cons e es)
  from handle_Done_step [OF Cons.prems, of E e]
  have a: "k < length (st_handles (step E e s))"
    and b: "cell_state (tx_contract (st_handles (step E e s) ! k)) = Done v"
    and c: "cell_runs (tx_contract (st_handles (step E e s) ! k)) =
              cell_runs (tx_contract (st_handles s ! k))"
           "tx_ctorCalls (st_handles (step E e s) ! k) = tx_ctorCalls (st_handles s ! k)"
    by simp_all
  from Cons.IH [OF a b] c show ?case by simp
qed

subsection \<open>A call of a started thunk starts nothing\<close>

lemma started_calls:
  "\<not> notStarted (st_contract s) \<Longrightarrow> callContract s = s"
  "\<not> notStarted (st_txRequest s) \<Longrightarrow> callTxRequest s = s"
  "\<not> notStarted (tx_contract (st_handles s ! k)) \<Longrightarrow> callResolution k s = s"
  by (auto simp: callContract_def callTxRequest_def callResolution_def Let_def invoke_def settle_def notStarted_def inFlight_def lazyValue_def cellOk_def
      split: lazy_state.splits)

subsection \<open>Waiting\<close>

lemma wait_frame:
  assumes "k < length (st_handles s)"
  shows "length (st_handles (snd (wait E k options s))) = length (st_handles s) \<and>
         st_submissions (snd (wait E k options s)) = st_submissions s \<and>
         st_txRequest (snd (wait E k options s)) = st_txRequest s \<and>
         st_deploymentPlans (snd (wait E k options s)) = st_deploymentPlans s \<and>
         st_initializePlans (snd (wait E k options s)) = st_initializePlans s \<and>
         tx_receiptWaits (st_handles (snd (wait E k options s)) ! k) =
           Suc (tx_receiptWaits (st_handles s ! k))"
  using assms
  by (auto simp: wait_def callContract_def callResolution_def Let_def invoke_def settle_def notStarted_def inFlight_def lazyValue_def cellOk_def
       nth_list_update split: lazy_state.splits sum.splits if_splits)

lemma wait_stateOk:
  assumes "stateOk E s"
  shows "stateOk E (snd (wait E k options s))"
  using assms by (simp add: wait_def Let_def stateOk_run del: run.simps)

lemma wait_Done:
  assumes "stateOk E s" "k < length (st_handles s)"
    and "\<not> isl (superWait E (tx_receiptWaits (st_handles s ! k)) options)"
  shows "\<exists>v. cell_state (tx_contract (st_handles (snd (wait E k options s)) ! k)) = Done v"
  using assms unfolding stateOk_def handleOk_def
  by (auto simp: wait_def callContract_def callResolution_def Let_def invoke_def settle_def notStarted_def inFlight_def lazyValue_def cellOk_def
       nth_list_update split: lazy_state.splits sum.splits if_splits)

lemma wait_snd:
  assumes "k < length (st_handles s)"
  shows "snd (wait E k options s) =
           run E [WaitCalled k, WaitResumed k (tx_receiptWaits (st_handles s ! k)) options,
                  ContractSettles, ResolutionSettles k] s"
    and "fst (wait E k options s) =
           waitResult E (tx_receiptWaits (st_handles s ! k)) options
             (st_handles (snd (wait E k options s)) ! k)"
  using assms by (simp_all add: wait_def Let_def del: run.simps)

subsection \<open>Memoised computations\<close>

text \<open>
  C3, as amended. The constructor starts nothing. After any sequence of calls and
  completions, the descriptor build and the request build have each run once if their
  thunk was ever called and not at all otherwise; the two sub-plans are not wrapped
  themselves but run inside the request build, the deployment sub-plan once per run of it
  and the initialization sub-plan at most once. The contract resolution is wrapped per
  handle: every \<open>send\<close> creates a handle with a thunk of its own, which has run once if
  it was ever called, with at most one call of the post-deploy constructor. A call of a
  thunk that has started changes nothing (callers before completion share the execution
  in flight), and an outcome, once there, is the computed one and stays.
\<close>

theorem lazy_computations_run_once:
  fixes E es
  defines "s \<equiv> run E es newDeployMethod"
  shows "cell_runs (st_contract newDeployMethod) = 0 \<and>
         cell_runs (st_txRequest newDeployMethod) = 0 \<and>
         st_handles newDeployMethod = [] \<and>
         cell_runs (st_contract s) = (if notStarted (st_contract s) then 0 else 1) \<and>
         cell_runs (st_txRequest s) = (if notStarted (st_txRequest s) then 0 else 1) \<and>
         st_deploymentPlans s = cell_runs (st_txRequest s) \<and>
         st_initializePlans s \<le> cell_runs (st_txRequest s) \<and>
         (\<forall>k < length (st_handles s).
            cell_runs (tx_contract (st_handles s ! k)) =
              (if notStarted (tx_contract (st_handles s ! k)) then 0 else 1) \<and>
            tx_ctorCalls (st_handles s ! k) \<le> cell_runs (tx_contract (st_handles s ! k))) \<and>
         (\<not> notStarted (st_contract s) \<longrightarrow> callContract s = s) \<and>
         (\<not> notStarted (st_txRequest s) \<longrightarrow> callTxRequest s = s) \<and>
         (\<forall>k < length (st_handles s).
            \<not> notStarted (tx_contract (st_handles s ! k)) \<longrightarrow> callResolution k s = s) \<and>
         (\<forall>v es'. cell_state (st_contract s) = Done v \<longrightarrow>
            v = contract (env_library E) (env_method E) \<and>
            cell_state (st_contract (run E es' s)) = Done v) \<and>
         (\<forall>v es'. cell_state (st_txRequest s) = Done v \<longrightarrow>
            v = txRequest (env_library E) (env_method E) \<and>
            cell_state (st_txRequest (run E es' s)) = Done v) \<and>
         (\<forall>k v es'. k < length (st_handles s) \<and>
            cell_state (tx_contract (st_handles s ! k)) = Done v \<longrightarrow>
            v = resolveContract E \<and>
            cell_state (tx_contract (st_handles (run E es' s) ! k)) = Done v)"
proof -
  have ok: "stateOk E s"
    unfolding s_def by (rule stateOk_run [OF stateOk_new])
  have new: "cell_runs (st_contract newDeployMethod) = 0 \<and>
         cell_runs (st_txRequest newDeployMethod) = 0 \<and>
         st_handles newDeployMethod = []"
    by (simp add: newDeployMethod_def lazyValue_def)
  have c1: "cell_runs (st_contract s) = (if notStarted (st_contract s) then 0 else 1)"
    and c2: "cell_runs (st_txRequest s) = (if notStarted (st_txRequest s) then 0 else 1)"
    and c3: "st_deploymentPlans s = cell_runs (st_txRequest s)"
    using ok by (simp_all add: stateOk_def cellOk_def)
  have c4: "st_initializePlans s \<le> cell_runs (st_txRequest s)"
    using ok by (auto simp: stateOk_def cellOk_def notStarted_def split: lazy_state.splits)
  have h: "cell_runs (tx_contract (st_handles s ! k)) =
              (if notStarted (tx_contract (st_handles s ! k)) then 0 else 1) \<and>
            tx_ctorCalls (st_handles s ! k) \<le> cell_runs (tx_contract (st_handles s ! k))"
    if "k < length (st_handles s)" for k
  proof -
    from ok that have "handleOk E s (st_handles s ! k)" by (simp add: stateOk_def)
    then show ?thesis
      by (auto simp: handleOk_def cellOk_def notStarted_def split: lazy_state.splits)
  qed
  have v1: "v = contract (env_library E) (env_method E) \<and>
            cell_state (st_contract (run E es' s)) = Done v"
    if "cell_state (st_contract s) = Done v" for v es'
    using ok that contract_Done_run [OF that] by (simp add: stateOk_def)
  have v2: "v = txRequest (env_library E) (env_method E) \<and>
            cell_state (st_txRequest (run E es' s)) = Done v"
    if "cell_state (st_txRequest s) = Done v" for v es'
    using ok that txRequest_Done_run [OF that] by (simp add: stateOk_def)
  have v3: "v = resolveContract E \<and>
            cell_state (tx_contract (st_handles (run E es' s) ! k)) = Done v"
    if "k < length (st_handles s)" "cell_state (tx_contract (st_handles s ! k)) = Done v"
    for k v es'
  proof -
    from ok that(1) have "handleOk E s (st_handles s ! k)" by (simp add: stateOk_def)
    with that(2) have "v = resolveContract E" by (simp add: handleOk_def)
    with handle_Done_run [OF that] show ?thesis by simp
  qed
  from new c1 c2 c3 c4 h started_calls v1 v2 v3 show ?thesis
    by (intro conjI allI impI) blast+
qed

theorem lazy_computations_run_once_witness:
  "cell_runs (st_contract (run exPromptEnv exTwoSends newDeployMethod)) = 1 \<and>
   cell_runs (st_txRequest (run exPromptEnv exTwoSends newDeployMethod)) = 1 \<and>
   st_deploymentPlans (run exPromptEnv exTwoSends newDeployMethod) = 1 \<and>
   st_initializePlans (run exPromptEnv exTwoSends newDeployMethod) = 1 \<and>
   map tx_ctorCalls (st_handles (run exPromptEnv exTwoSends newDeployMethod)) = [1, 1] \<and>
   \<not> notStarted (st_txRequest (run exPromptEnv exTwoSends newDeployMethod)) \<and>
   callTxRequest (run exPromptEnv exTwoSends newDeployMethod) =
     run exPromptEnv exTwoSends newDeployMethod \<and>
   cell_state (st_contract (run exPromptEnv exTwoSends newDeployMethod)) =
     Done (contract exLibrary exDeploy) \<and>
   cell_state (st_contract (run exPromptEnv [Send, Send] (run exPromptEnv exTwoSends newDeployMethod))) =
     Done (contract exLibrary exDeploy)"
proof -
  let ?s = "run exPromptEnv exTwoSends newDeployMethod"
  have e: "cell_runs (st_contract ?s) = 1" "cell_runs (st_txRequest ?s) = 1"
    "st_deploymentPlans ?s = 1" "st_initializePlans ?s = 1"
    "map tx_ctorCalls (st_handles ?s) = [1, 1]" "\<not> notStarted (st_txRequest ?s)"
    "cell_state (st_contract ?s) = Done (contract exLibrary exDeploy)"
    by (simp_all add: send_def callTxRequest_def callContract_def callResolution_def newDeployMethod_def
        invoke_def settle_def notStarted_def inFlight_def lazyValue_def cellOk_def
        exPromptEnv_def exEnv_def exReceipt_def exTwoSends_def plan_defs ex_defs)
  note t = lazy_computations_run_once [of exPromptEnv exTwoSends]
  from t e(6) have c: "callTxRequest ?s = ?s" by blast
  from t e(7) have d: "cell_state (st_contract (run exPromptEnv [Send, Send] ?s)) =
      Done (contract exLibrary exDeploy)"
    by blast
  from e c d show ?thesis by simp
qed

text \<open>
  The claim as stated fails for the contract resolution: with two calls of \<open>send\<close> on
  one \<open>DeployMethod\<close> and a wait on each handle, the resolution runs twice and the
  post-deploy constructor is called twice, while the descriptor and the request are built
  once.
\<close>

theorem resolution_twice_counterexample:
  "resolutionRuns (run exPromptEnv exTwoSends newDeployMethod) = 2 \<and>
   ctorCalls (run exPromptEnv exTwoSends newDeployMethod) = 2 \<and>
   cell_runs (st_contract (run exPromptEnv exTwoSends newDeployMethod)) = 1 \<and>
   cell_runs (st_txRequest (run exPromptEnv exTwoSends newDeployMethod)) = 1"
  by (simp add: send_def callTxRequest_def callContract_def callResolution_def newDeployMethod_def
      invoke_def settle_def notStarted_def inFlight_def lazyValue_def cellOk_def
      exPromptEnv_def exEnv_def exReceipt_def exTwoSends_def resolutionRuns_def ctorCalls_def
      plan_defs ex_defs)

subsection \<open>Waiting twice\<close>

text \<open>
  C4, as amended. On a handle of a reachable state, two calls of \<open>wait\<close> in a row both
  return; each calls the base-class wait again (twice in all: \<open>DeploySentTx\<close> does not
  memoise it), nothing is submitted and no handle is created; the contract thunk of the
  handle runs at most once, with at most one call of the post-deploy constructor, and when
  the first call got its receipt the second call finds the thunk as the first left it.
  When the base wait answers both calls alike, both calls return the same result.
\<close>

theorem wait_twice:
  fixes E es k options
  defines "s \<equiv> run E es newDeployMethod"
  defines "n \<equiv> tx_receiptWaits (st_handles s ! k)"
  defines "w1 \<equiv> wait E k options s"
  defines "w2 \<equiv> wait E k options (snd w1)"
  assumes k: "k < length (st_handles s)"
  shows "fst w1 \<noteq> None \<and> fst w2 \<noteq> None \<and>
         tx_receiptWaits (st_handles (snd w2) ! k) = n + 2 \<and>
         st_submissions (snd w2) = st_submissions s \<and>
         length (st_handles (snd w2)) = length (st_handles s) \<and>
         st_txRequest (snd w2) = st_txRequest s \<and>
         cell_runs (tx_contract (st_handles (snd w2) ! k)) \<le> 1 \<and>
         tx_ctorCalls (st_handles (snd w2) ! k) \<le> 1 \<and>
         (\<not> isl (superWait E n options) \<longrightarrow>
            cell_state (tx_contract (st_handles (snd w2) ! k)) =
              cell_state (tx_contract (st_handles (snd w1) ! k)) \<and>
            cell_runs (tx_contract (st_handles (snd w2) ! k)) =
              cell_runs (tx_contract (st_handles (snd w1) ! k)) \<and>
            tx_ctorCalls (st_handles (snd w2) ! k) = tx_ctorCalls (st_handles (snd w1) ! k)) \<and>
         (superWait E (Suc n) options = superWait E n options \<longrightarrow> fst w2 = fst w1)"
proof -
  let ?h1 = "st_handles (snd w1) ! k" and ?h2 = "st_handles (snd w2) ! k"
  have ok0: "stateOk E s"
    unfolding s_def by (rule stateOk_run [OF stateOk_new])
  have ok1: "stateOk E (snd w1)"
    unfolding w1_def by (rule wait_stateOk [OF ok0])
  have ok2: "stateOk E (snd w2)"
    unfolding w2_def by (rule wait_stateOk [OF ok1])
  note f1 = wait_frame [OF k, of E options, folded w1_def n_def]
  from f1 k have k1: "k < length (st_handles (snd w1))" by simp
  note f2 = wait_frame [OF k1, of E options, folded w2_def]
  from f1 have n1: "tx_receiptWaits ?h1 = Suc n" by simp
  have r1: "fst w1 = waitResult E n options ?h1"
    unfolding w1_def n_def by (rule wait_snd(2) [OF k])
  have r2: "fst w2 = waitResult E (Suc n) options ?h2"
    using wait_snd(2) [OF k1, of E options] n1 by (simp add: w2_def)
  have d1: "\<exists>v. cell_state (tx_contract ?h1) = Done v" if "\<not> isl (superWait E n options)"
    using wait_Done [OF ok0 k, of options] that by (simp add: w1_def n_def)
  have d2: "\<exists>v. cell_state (tx_contract ?h2) = Done v" if "\<not> isl (superWait E (Suc n) options)"
    using wait_Done [OF ok1 k1, of options] that n1 by (simp add: w2_def)
  have A: "fst w1 \<noteq> None"
    using r1 d1 by (auto simp: waitResult_def split: sum.splits lazy_state.splits)
  have B: "fst w2 \<noteq> None"
    using r2 d2 by (auto simp: waitResult_def split: sum.splits lazy_state.splits)
  have C: "tx_receiptWaits ?h2 = n + 2"
    using f2 n1 by simp
  have D: "st_submissions (snd w2) = st_submissions s"
    "length (st_handles (snd w2)) = length (st_handles s)"
    "st_txRequest (snd w2) = st_txRequest s"
    using f1 f2 by simp_all
  from f2 k1 have k2: "k < length (st_handles (snd w2))" by simp
  with ok2 have "handleOk E (snd w2) ?h2" by (simp add: stateOk_def)
  then have F: "cell_runs (tx_contract ?h2) \<le> 1" "tx_ctorCalls ?h2 \<le> 1"
    by (auto simp: handleOk_def cellOk_def split: lazy_state.splits if_splits)
  have G: "cell_state (tx_contract ?h2) = cell_state (tx_contract ?h1) \<and>
           cell_runs (tx_contract ?h2) = cell_runs (tx_contract ?h1) \<and>
           tx_ctorCalls ?h2 = tx_ctorCalls ?h1"
    if ok: "\<not> isl (superWait E n options)"
  proof -
    from d1 [OF ok] obtain v where v: "cell_state (tx_contract ?h1) = Done v" ..
    define evs where "evs = [WaitCalled k, WaitResumed k (tx_receiptWaits ?h1) options,
                          ContractSettles, ResolutionSettles k]"
    have "snd w2 = run E evs (snd w1)"
      unfolding w2_def evs_def by (rule wait_snd(1) [OF k1])
    with handle_Done_run [OF k1 v, of E evs] v show ?thesis by simp
  qed
  have H: "fst w2 = fst w1" if eq: "superWait E (Suc n) options = superWait E n options"
  proof (cases "isl (superWait E n options)")
    case True
    with eq r1 r2 show ?thesis
      by (auto simp: waitResult_def split: sum.splits)
  next
    case False
    from G [OF False]
    have e: "cell_state (tx_contract ?h2) = cell_state (tx_contract ?h1)" by simp
    show ?thesis
      by (simp only: r1 r2 waitResult_def eq e)
  qed
  from A B C D F G H show ?thesis by blast
qed

theorem wait_twice_witness:
  "0 < length (st_handles (run exPromptEnv [Send] newDeployMethod)) \<and>
   fst (wait exPromptEnv 0 None (run exPromptEnv [Send] newDeployMethod)) =
     Some (Inr (tx_receipt.extend exReceipt
       \<lparr>rc_contract = \<lparr>dc_address = AztecAddress 100, dc_account = exAccount\<rparr>\<rparr>)) \<and>
   fst (wait exPromptEnv 0 None
         (snd (wait exPromptEnv 0 None (run exPromptEnv [Send] newDeployMethod)))) =
     fst (wait exPromptEnv 0 None (run exPromptEnv [Send] newDeployMethod)) \<and>
   tx_ctorCalls (st_handles (snd (wait exPromptEnv 0 None
         (snd (wait exPromptEnv 0 None (run exPromptEnv [Send] newDeployMethod))))) ! 0) \<le> 1 \<and>
   tx_receiptWaits (st_handles (snd (wait exPromptEnv 0 None
         (snd (wait exPromptEnv 0 None (run exPromptEnv [Send] newDeployMethod))))) ! 0) = 2"
proof -
  let ?s = "run exPromptEnv [Send] newDeployMethod"
  have k: "0 < length (st_handles ?s)"
    by (simp add: send_def callTxRequest_def callContract_def callResolution_def newDeployMethod_def
        exPromptEnv_def exEnv_def exReceipt_def)
  have n: "tx_receiptWaits (st_handles ?s ! 0) = 0"
    by (simp add: send_def callTxRequest_def callContract_def callResolution_def newDeployMethod_def
        exPromptEnv_def exEnv_def exReceipt_def)
  have b: "superWait exPromptEnv (Suc 0) None = superWait exPromptEnv 0 None"
    by (simp add: send_def callTxRequest_def callContract_def callResolution_def newDeployMethod_def
        exPromptEnv_def exEnv_def exReceipt_def)
  have r: "fst (wait exPromptEnv 0 None ?s) =
     Some (Inr (tx_receipt.extend exReceipt
       \<lparr>rc_contract = \<lparr>dc_address = AztecAddress 100, dc_account = exAccount\<rparr>\<rparr>))"
    by (simp add: send_def callTxRequest_def callContract_def callResolution_def newDeployMethod_def wait_def
        waitResult_def invoke_def settle_def notStarted_def inFlight_def lazyValue_def cellOk_def
        exPromptEnv_def exEnv_def exReceipt_def contract_def deployParams_def ex_defs)
  from wait_twice [of 0 exPromptEnv "[Send]" None, OF k] n b k r
  show ?thesis by simp
qed

text \<open>
  The claim as stated fails for the receipt wait: when the first base wait times out and
  the second resolves, the first \<open>wait\<close> rejects and the second returns the receipt; the
  base wait was called twice.
\<close>

theorem wait_twice_counterexample:
  "fst (wait exEnv 0 None (run exEnv [Send] newDeployMethod)) =
     Some (Inl (NodeError ''timeout'')) \<and>
   fst (wait exEnv 0 None
         (snd (wait exEnv 0 None (run exEnv [Send] newDeployMethod)))) =
     Some (Inr (tx_receipt.extend exReceipt
       \<lparr>rc_contract = \<lparr>dc_address = AztecAddress 100, dc_account = exAccount\<rparr>\<rparr>)) \<and>
   tx_receiptWaits (st_handles (snd (wait exEnv 0 None
         (snd (wait exEnv 0 None (run exEnv [Send] newDeployMethod))))) ! 0) = 2"
  by (simp add: send_def callTxRequest_def callContract_def callResolution_def newDeployMethod_def wait_def
      waitResult_def invoke_def settle_def notStarted_def inFlight_def lazyValue_def cellOk_def
      exEnv_def exReceipt_def contract_def deployParams_def ex_defs)

end
